theory Spec2Isabelle
  imports Main "HOL-Library.Sublist" "HOL-Library.AList"
begin

section \<open>Python strings and dictionaries\<close>

text \<open>
  A Python \<open>str\<close> is a sequence of Unicode code points, modelled as a list of naturals.
  \<open>str\<close> turns an ASCII literal into such a sequence.  A \<open>dict\<close> keeps its keys in
  insertion order, and assigning to a key that is present keeps the key's position: it is
  an association list updated with \<open>AList.update\<close>.
\<close>

type_synonym pystr = "nat list"

definition str :: "string \<Rightarrow> pystr" where
  "str s = map of_char s"

type_synonym 'v pydict = "(pystr \<times> 'v) list"

datatype py_error =
    TypeError | KeyError | AttributeError | ValueError | NameError
  | UnicodeEncodeError | IsADirectoryError | Raised pystr

text \<open>\<open>sub in s\<close>: \<open>sub\<close> occurs in \<open>s\<close> as a contiguous run.\<close>

fun py_in :: "'a list \<Rightarrow> 'a list \<Rightarrow> bool" where
  "py_in sub [] = (sub = [])"
| "py_in sub (c # cs) = (prefix sub (c # cs) \<or> py_in sub cs)"

text \<open>
  \<open>s.split(sep)\<close> for a non-empty separator: the occurrences of \<open>sep\<close> are found from
  the left and do not overlap.  An empty separator raises \<open>ValueError\<close>.
\<close>

fun split_aux :: "'a list \<Rightarrow> 'a list \<Rightarrow> 'a list \<Rightarrow> 'a list list" where
  "split_aux sep acc [] = [acc]"
| "split_aux sep acc (c # cs) =
     (if prefix sep (c # cs) then acc # split_aux sep [] (drop (length sep - 1) cs)
      else split_aux sep (acc @ [c]) cs)"

definition py_split :: "'a list \<Rightarrow> 'a list \<Rightarrow> py_error + 'a list list" where
  "py_split sep s = (if sep = [] then Inl ValueError else Inr (split_aux sep [] s))"

text \<open>\<open>s.split(sep, 1)\<close>: at most one split, at the leftmost occurrence.\<close>

fun split1_aux :: "'a list \<Rightarrow> 'a list \<Rightarrow> 'a list \<Rightarrow> ('a list \<times> 'a list) option" where
  "split1_aux sep acc [] = None"
| "split1_aux sep acc (c # cs) =
     (if prefix sep (c # cs) then Some (acc, drop (length sep - 1) cs)
      else split1_aux sep (acc @ [c]) cs)"

definition py_split1 :: "'a list \<Rightarrow> 'a list \<Rightarrow> py_error + 'a list list" where
  "py_split1 sep s =
     (if sep = [] then Inl ValueError
      else case split1_aux sep [] s of
             None \<Rightarrow> Inr [s]
           | Some (h, t) \<Rightarrow> Inr [h, t])"

text \<open>\<open>s.replace(old, new)\<close>: every non-overlapping occurrence, from the left.\<close>

fun replace_aux :: "'a list \<Rightarrow> 'a list \<Rightarrow> 'a list \<Rightarrow> 'a list" where
  "replace_aux old new [] = []"
| "replace_aux old new (c # cs) =
     (if prefix old (c # cs) then new @ replace_aux old new (drop (length old - 1) cs)
      else c # replace_aux old new cs)"

definition py_replace :: "'a list \<Rightarrow> 'a list \<Rightarrow> 'a list \<Rightarrow> 'a list" where
  "py_replace old new s =
     (if old = [] then new @ concat (map (\<lambda>c. c # new) s) else replace_aux old new s)"

text \<open>\<open>s.count(sub)\<close> for a non-empty \<open>sub\<close>: the number of non-overlapping occurrences.\<close>

fun count_aux :: "'a list \<Rightarrow> 'a list \<Rightarrow> nat" where
  "count_aux sub [] = 0"
| "count_aux sub (c # cs) =
     (if prefix sub (c # cs) then Suc (count_aux sub (drop (length sub - 1) cs))
      else count_aux sub cs)"

definition py_count :: "'a list \<Rightarrow> 'a list \<Rightarrow> nat" where
  "py_count sub s = (if sub = [] then Suc (length s) else count_aux sub s)"

text \<open>
  \<open>str.isspace\<close> on one code point, and \<open>s.strip()\<close>, which removes the white space of
  both ends.
\<close>

definition py_isspace :: "nat \<Rightarrow> bool" where
  "py_isspace c \<longleftrightarrow>
     (9 \<le> c \<and> c \<le> 13) \<or> (28 \<le> c \<and> c \<le> 32) \<or> c = 133 \<or> c = 160 \<or> c = 5760
     \<or> (8192 \<le> c \<and> c \<le> 8202) \<or> c = 8232 \<or> c = 8233 \<or> c = 8239 \<or> c = 8287
     \<or> c = 12288"

definition py_strip :: "pystr \<Rightarrow> pystr" where
  "py_strip s = rev (dropWhile py_isspace (rev (dropWhile py_isspace s)))"

text \<open>\<open>s.find(sub)\<close> and \<open>s.rfind(sub)\<close>: the lowest and the highest index, or \<open>-1\<close>.\<close>

fun find_from :: "'a list \<Rightarrow> 'a list \<Rightarrow> nat \<Rightarrow> int" where
  "find_from sub [] i = (if sub = [] then int i else -1)"
| "find_from sub (c # cs) i =
     (if prefix sub (c # cs) then int i else find_from sub cs (Suc i))"

definition py_find :: "'a list \<Rightarrow> 'a list \<Rightarrow> int" where
  "py_find sub s = find_from sub s 0"

fun rfind_from :: "'a list \<Rightarrow> 'a list \<Rightarrow> nat \<Rightarrow> int" where
  "rfind_from sub [] i = (if sub = [] then int i else -1)"
| "rfind_from sub (c # cs) i =
     (let r = rfind_from sub cs (Suc i)
      in if r \<noteq> -1 then r else if prefix sub (c # cs) then int i else -1)"

definition py_rfind :: "'a list \<Rightarrow> 'a list \<Rightarrow> int" where
  "py_rfind sub s = rfind_from sub s 0"

text \<open>\<open>s[i:j]\<close>: a negative index counts from the end, and both are clamped.\<close>

definition py_index :: "nat \<Rightarrow> int \<Rightarrow> nat" where
  "py_index n i = (if i < 0 then nat (max 0 (int n + i)) else min n (nat i))"

definition py_slice :: "'a list \<Rightarrow> int \<Rightarrow> int \<Rightarrow> 'a list" where
  "py_slice s i j =
     (let a = py_index (length s) i; b = py_index (length s) j
      in take (b - a) (drop a s))"

text \<open>\<open>{**a, **b}\<close>: the entries of \<open>b\<close> are assigned into a copy of \<open>a\<close>, in order.\<close>

definition dict_merge :: "'v pydict \<Rightarrow> 'v pydict \<Rightarrow> 'v pydict" where
  "dict_merge a b = fold (\<lambda>(k, v) d. AList.update k v d) b a"

section \<open>Artifact parsing\<close>

text \<open>
  The three generating stages (\<open>developer_node\<close> twice, \<open>tester_node\<close> once) run the same
  loop over the generator's text:
  \<^verbatim>\<open>
    parts = result['content'].split('===FILE:')
    for part in parts[1:]:
        if '===' in part:
            header, content = part.split('===', 1)
            filename = header.strip()
            body = content.replace('===END FILE===', '').strip()
            code_files[filename] = body
            save_file(project_name, filename, body)
  \<close>
  \<open>save\<close> is the call of \<open>save_file\<close>, which writes to the project directory and may
  raise; it returns the exception, if any.  Unpacking a list that has not exactly two
  elements raises \<open>ValueError\<close>.
\<close>

definition FILE_MARK :: pystr where "FILE_MARK = str ''===FILE:''"
definition SEP :: pystr where "SEP = str ''===''"
definition END_MARK :: pystr where "END_MARK = str ''===END FILE===''"

fun parse_parts ::
  "(pystr \<Rightarrow> pystr \<Rightarrow> py_error option) \<Rightarrow> pystr list \<Rightarrow> pystr pydict \<Rightarrow> py_error + pystr pydict"
where
  "parse_parts save [] files = Inr files"
| "parse_parts save (part # parts) files =
     (if py_in SEP part then
        (case py_split1 SEP part of
           Inl e \<Rightarrow> Inl e
         | Inr [header, content] \<Rightarrow>
             (let filename = py_strip header;
                  body = py_strip (py_replace END_MARK [] content);
                  files' = AList.update filename body files
              in case save filename body of
                   Some e \<Rightarrow> Inl e
                 | None \<Rightarrow> parse_parts save parts files')
         | Inr _ \<Rightarrow> Inl ValueError)
      else parse_parts save parts files)"

definition parse_files ::
  "(pystr \<Rightarrow> pystr \<Rightarrow> py_error option) \<Rightarrow> pystr \<Rightarrow> py_error + pystr pydict"
where
  "parse_files save text =
     (case py_split FILE_MARK text of
        Inl e \<Rightarrow> Inl e
      | Inr parts \<Rightarrow> parse_parts save (tl parts) [])"

text \<open>
  The segments of a text are what follows each start marker, \<open>parts[1:]\<close>.  The pair a
  segment yields is the trimmed header and the trimmed content without end markers.
\<close>

definition segments :: "pystr \<Rightarrow> pystr list" where
  "segments text = tl (split_aux FILE_MARK [] text)"

definition pair_of :: "pystr \<Rightarrow> pystr \<Rightarrow> pystr \<times> pystr" where
  "pair_of header body = (py_strip header, py_strip (py_replace END_MARK [] body))"

text \<open>
  The format the prompts ask the generator for,
  \<^verbatim>\<open>
    ===FILE: filename===
    [content]
    ===END FILE===
  \<close>
  written out for a mapping: one such block per file, each line ended by a newline.
\<close>

definition serialize_file :: "pystr \<times> pystr \<Rightarrow> pystr" where
  "serialize_file f =
     FILE_MARK @ str '' '' @ fst f @ SEP @ [10] @ snd f @ [10] @ END_MARK @ [10]"

definition serialize_files :: "pystr pydict \<Rightarrow> pystr" where
  "serialize_files files = concat (map serialize_file files)"

text \<open>
  A file that the format can carry: the path and the content have no white space at their
  ends, the path contains no \<open>===\<close> and does not end with \<open>=\<close> (so that the separator
  after it is the first one), and the content contains neither marker.
\<close>

definition well_formed_file :: "pystr \<times> pystr \<Rightarrow> bool" where
  "well_formed_file f \<longleftrightarrow>
     py_strip (fst f) = fst f \<and> \<not> py_in SEP (fst f) \<and> (fst f = [] \<or> last (fst f) \<noteq> 61)
     \<and> py_strip (snd f) = snd f \<and> \<not> py_in FILE_MARK (snd f) \<and> \<not> py_in END_MARK (snd f)"

section \<open>JSON values and dictionaries\<close>

text \<open>
  The values \<open>json.loads\<close> and \<open>response.json()\<close> produce, and the dictionaries the
  program builds from them.  Numbers are the integers: no path of the program computes
  with a fractional number.
\<close>

datatype json =
    JNull | JBool bool | JNum int | JStr pystr | JArr "json list" | JObj "(pystr \<times> json) list"

text \<open>Truth value of a value in \<open>if v:\<close>.\<close>

fun truthy :: "json \<Rightarrow> bool" where
  "truthy JNull = False"
| "truthy (JBool b) = b"
| "truthy (JNum n) = (n \<noteq> 0)"
| "truthy (JStr s) = (s \<noteq> [])"
| "truthy (JArr xs) = (xs \<noteq> [])"
| "truthy (JObj kvs) = (kvs \<noteq> [])"

text \<open>\<open>d[k]\<close> and \<open>d.get(k, default)\<close> on a dictionary.\<close>

definition dict_item :: "'v pydict \<Rightarrow> pystr \<Rightarrow> py_error + 'v" where
  "dict_item d k = (case map_of d k of None \<Rightarrow> Inl KeyError | Some v \<Rightarrow> Inr v)"

definition dict_get :: "'v pydict \<Rightarrow> pystr \<Rightarrow> 'v \<Rightarrow> 'v" where
  "dict_get d k dflt = (case map_of d k of None \<Rightarrow> dflt | Some v \<Rightarrow> v)"

text \<open>
  \<open>v[k]\<close> with a string key and \<open>v.get(k, default)\<close> on any value: only a dictionary
  has them.
\<close>

fun json_item :: "json \<Rightarrow> pystr \<Rightarrow> py_error + json" where
  "json_item (JObj d) k = dict_item d k"
| "json_item _ k = Inl TypeError"

fun json_get :: "json \<Rightarrow> pystr \<Rightarrow> json \<Rightarrow> py_error + json" where
  "json_get (JObj d) k dflt = Inr (dict_get d k dflt)"
| "json_get _ k dflt = Inl AttributeError"

text \<open>\<open>for x in v\<close>: the elements of a list, the keys of a dictionary, the characters of a string.\<close>

fun py_iter :: "json \<Rightarrow> py_error + json list" where
  "py_iter (JArr xs) = Inr xs"
| "py_iter (JObj d) = Inr (map (\<lambda>kv. JStr (fst kv)) d)"
| "py_iter (JStr s) = Inr (map (\<lambda>c. JStr [c]) s)"
| "py_iter _ = Inl TypeError"

text \<open>Decimal digits of a number, as \<open>str(n)\<close> prints them.\<close>

function show_nat :: "nat \<Rightarrow> pystr" where
  "show_nat n = (if n < 10 then [48 + n] else show_nat (n div 10) @ [48 + n mod 10])"
  by pat_completeness auto
termination
  by (relation "measure id") auto

definition show_int :: "int \<Rightarrow> pystr" where
  "show_int i = (if i < 0 then 45 # show_nat (nat (- i)) else show_nat (nat i))"

section \<open>Collaborators\<close>

text \<open>
  Everything the program reaches outside itself: the environment variables, the HTTP
  client, the language model, the file system, and the library functions whose result is
  not computed here.  An HTTP call answers with a response or raises (\<open>Inl\<close> with the
  exception's text); the answer may depend on the requests sent before.
\<close>

datatype http_verb = GET | POST | PUT

datatype request = Request (verb: http_verb) (url: pystr) (bearer: pystr) (payload: "json pydict option")

record http_response =
  status_code :: nat
  json_body :: "json option"

record claude_result =
  content :: pystr
  success :: bool
  error :: "pystr option"

record env =
  github_token :: "pystr option"
  vercel_token :: "pystr option"
  http :: "request list \<Rightarrow> request \<Rightarrow> pystr + http_response"
  call_claude :: "pystr \<Rightarrow> claude_result"
  json_loads :: "pystr \<Rightarrow> json option"
  fs_write :: "pystr \<Rightarrow> pystr \<Rightarrow> pystr \<Rightarrow> py_error option"
  lower :: "pystr \<Rightarrow> pystr"
  repr :: "json \<Rightarrow> pystr"
  b64encode :: "pystr \<Rightarrow> pystr"
  exc_text :: "py_error \<Rightarrow> pystr"

text \<open>
  \<open>call_claude env system_prompt\<close> is the result of \<open>call_claude(prompt, system_prompt)\<close>:
  the function catches every exception of the client, so it always returns a dictionary
  with \<open>content\<close> and \<open>success\<close>.  The prompt's wording is not modelled; the system prompt
  names the call site.  \<open>json_loads\<close> is \<open>None\<close> where \<open>json.loads\<close> raises, \<open>fs_write\<close>
  is the exception of \<open>save_file\<close>'s directory creation and write, \<open>lower\<close> is
  \<open>str.lower\<close>, \<open>repr\<close> prints a list or a dictionary, \<open>exc_text\<close> is \<open>str(e)\<close>.
\<close>

text \<open>\<open>f"{v}"\<close> for a value, and for one that may be \<open>None\<close>.\<close>

definition py_str :: "env \<Rightarrow> json \<Rightarrow> pystr" where
  "py_str env v =
     (case v of
        JStr s \<Rightarrow> s
      | JNull \<Rightarrow> str ''None''
      | JBool b \<Rightarrow> (if b then str ''True'' else str ''False'')
      | JNum n \<Rightarrow> show_int n
      | _ \<Rightarrow> repr env v)"

definition py_str_opt :: "env \<Rightarrow> json option \<Rightarrow> pystr" where
  "py_str_opt env v = (case v of None \<Rightarrow> str ''None'' | Some j \<Rightarrow> py_str env j)"

text \<open>\<open>save_file(project_name, filename, content)\<close>: the path join needs a string.\<close>

definition save_file :: "env \<Rightarrow> json \<Rightarrow> pystr \<Rightarrow> pystr \<Rightarrow> py_error option" where
  "save_file env project_name filename body =
     (case project_name of
        JStr name \<Rightarrow> fs_write env name filename body
      | _ \<Rightarrow> Some TypeError)"

section \<open>Repository operations\<close>

definition failure :: "pystr \<Rightarrow> json pydict" where
  "failure msg = [(str ''success'', JBool False), (str ''error'', JStr msg)]"

definition status_failure :: "nat \<Rightarrow> json pydict" where
  "status_failure code = failure (str ''Status '' @ show_nat code)"

definition create_repo ::
  "env \<Rightarrow> request list \<Rightarrow> pystr \<Rightarrow> json pydict \<Rightarrow> json pydict \<times> request list"
where
  "create_repo env log token kwargs =
     (case dict_item kwargs (str ''name'') of
        Inl e \<Rightarrow> (failure (exc_text env e), log)
      | Inr name \<Rightarrow>
          (let req = Request POST (str ''https://api.github.com/user/repos'') token
                       (Some [(str ''name'', name),
                              (str ''description'', dict_get kwargs (str ''description'') (JStr [])),
                              (str ''private'', JBool False),
                              (str ''auto_init'', JBool True)]);
               log' = log @ [req]
           in case http env log req of
                Inl msg \<Rightarrow> (failure msg, log')
              | Inr response \<Rightarrow>
                  if status_code response = 201 then
                    (case json_body response of
                       None \<Rightarrow> (failure (exc_text env ValueError), log')
                     | Some data \<Rightarrow>
                         (case json_item data (str ''html_url'') of
                            Inl e \<Rightarrow> (failure (exc_text env e), log')
                          | Inr html_url \<Rightarrow>
                         (case json_item data (str ''owner'') of
                            Inl e \<Rightarrow> (failure (exc_text env e), log')
                          | Inr owner \<Rightarrow>
                         (case json_item owner (str ''login'') of
                            Inl e \<Rightarrow> (failure (exc_text env e), log')
                          | Inr login \<Rightarrow>
                         (case json_item data (str ''name'') of
                            Inl e \<Rightarrow> (failure (exc_text env e), log')
                          | Inr repo_name \<Rightarrow>
                              ([(str ''success'', JBool True),
                                (str ''repo_url'', html_url),
                                (str ''owner'', login),
                                (str ''name'', repo_name)], log'))))))
                  else (status_failure (status_code response), log')))"

text \<open>
  The contents URL of a file, and the body of the write: \<open>content.encode()\<close> needs a
  string and raises on a lone surrogate.
\<close>

definition contents_url :: "env \<Rightarrow> json \<Rightarrow> json \<Rightarrow> json \<Rightarrow> pystr" where
  "contents_url env owner repo path =
     str ''https://api.github.com/repos/'' @ py_str env owner @ str ''/'' @ py_str env repo
       @ str ''/contents/'' @ py_str env path"

definition encode_b64 :: "env \<Rightarrow> json \<Rightarrow> py_error + pystr" where
  "encode_b64 env v =
     (case v of
        JStr s \<Rightarrow>
          (if \<exists>c \<in> set s. 55296 \<le> c \<and> c \<le> 57343 then Inl UnicodeEncodeError
           else Inr (b64encode env s))
      | _ \<Rightarrow> Inl AttributeError)"

text \<open>The revision token read from the metadata: only a \<open>200\<close> answer is looked at.\<close>

definition read_sha :: "http_response \<Rightarrow> py_error + json" where
  "read_sha get_response =
     (if status_code get_response = 200 then
        (case json_body get_response of
           None \<Rightarrow> Inl ValueError
         | Some data \<Rightarrow> json_get data (str ''sha'') JNull)
      else Inr JNull)"

definition commit_payload :: "json pydict \<Rightarrow> pystr \<Rightarrow> json \<Rightarrow> json pydict" where
  "commit_payload kwargs content_b64 sha =
     (let payload = [(str ''message'', dict_get kwargs (str ''message'') (JStr (str ''Update file''))),
                     (str ''content'', JStr content_b64),
                     (str ''branch'', dict_get kwargs (str ''branch'') (JStr (str ''main'')))]
      in if truthy sha then AList.update (str ''sha'') sha payload else payload)"

definition commit_file ::
  "env \<Rightarrow> request list \<Rightarrow> pystr \<Rightarrow> json pydict \<Rightarrow> json pydict \<Rightarrow> json pydict \<times> request list"
where
  "commit_file env log token repo_info kwargs =
     (case dict_item repo_info (str ''owner'') of
        Inl e \<Rightarrow> (failure (exc_text env e), log)
      | Inr owner \<Rightarrow>
     (case dict_item repo_info (str ''name'') of
        Inl e \<Rightarrow> (failure (exc_text env e), log)
      | Inr repo \<Rightarrow>
     (case dict_item kwargs (str ''path'') of
        Inl e \<Rightarrow> (failure (exc_text env e), log)
      | Inr path \<Rightarrow>
          (let get = Request GET (contents_url env owner repo path) token None;
               log1 = log @ [get]
           in case http env log get of
                Inl msg \<Rightarrow> (failure msg, log1)
              | Inr get_response \<Rightarrow>
             (case read_sha get_response of
                Inl e \<Rightarrow> (failure (exc_text env e), log1)
              | Inr sha \<Rightarrow>
             (case dict_item kwargs (str ''content'') of
                Inl e \<Rightarrow> (failure (exc_text env e), log1)
              | Inr file_content \<Rightarrow>
             (case encode_b64 env file_content of
                Inl e \<Rightarrow> (failure (exc_text env e), log1)
              | Inr content_b64 \<Rightarrow>
                  (let put = Request PUT (contents_url env owner repo path) token
                               (Some (commit_payload kwargs content_b64 sha));
                       log2 = log1 @ [put]
                   in case http env log1 put of
                        Inl msg \<Rightarrow> (failure msg, log2)
                      | Inr response \<Rightarrow>
                          ([(str ''success'',
                             JBool (status_code response = 200 \<or> status_code response = 201))],
                           log2)))))))))"

text \<open>
  \<open>github_operation\<close>: without a token nothing is sent.  Any other operation name reaches
  the last \<open>return\<close> with \<open>response\<close> unbound, which the handler turns into a failure.
\<close>

definition github_operation ::
  "env \<Rightarrow> request list \<Rightarrow> pystr \<Rightarrow> json pydict \<Rightarrow> json pydict \<Rightarrow> json pydict \<times> request list"
where
  "github_operation env log operation repo_info kwargs =
     (case github_token env of
        None \<Rightarrow> (failure (str ''No GitHub token''), log)
      | Some token \<Rightarrow>
          if token = [] then (failure (str ''No GitHub token''), log)
          else if operation = str ''create_repo'' then create_repo env log token kwargs
          else if operation = str ''commit_file'' then commit_file env log token repo_info kwargs
          else (failure (exc_text env NameError), log))"

section \<open>The development state\<close>

text \<open>
  \<open>DevelopmentState\<close>, with the fields a stage reads or writes.  The flags
  \<open>requirements_approved\<close> and \<open>test_review_approved\<close>, the two test-result dictionaries,
  \<open>localhost_url\<close> and \<open>current_agent\<close> are set once when the run starts and no stage
  touches them.
\<close>

record state =
  user_request :: pystr
  requirements :: pystr
  conversation_history :: "(pystr \<times> pystr) list"
  development_plan :: "json option"
  code_files :: "pystr pydict"
  unit_tests :: "pystr pydict"
  e2e_tests :: "pystr pydict"
  deployment_url :: "json option"
  deployment_platform :: pystr
  github_repo :: "json pydict option"
  current_stage :: pystr
  iteration_count :: int
  errors :: "pystr list"
  messages :: "(pystr \<times> pystr) list"

text \<open>The state \<open>run_development\<close> starts the workflow with.\<close>

definition initial_state :: "pystr \<Rightarrow> (pystr \<times> pystr) list \<Rightarrow> state" where
  "initial_state reqs history =
     \<lparr> user_request = reqs, requirements = reqs, conversation_history = history,
       development_plan = None, code_files = [], unit_tests = [], e2e_tests = [],
       deployment_url = None, deployment_platform = str ''vercel'', github_repo = None,
       current_stage = str ''initial'', iteration_count = 0, errors = [], messages = [] \<rparr>"

section \<open>The repository stage\<close>

text \<open>
  \<open>state.get('development_plan', {}).get('project_name', 'react-app')\<close>, then
  \<open>.lower().replace(' ', '-')\<close>.  The key \<open>development_plan\<close> is always present, so the
  default \<open>{}\<close> is never taken: a plan that is \<open>None\<close> has no \<open>get\<close>.
\<close>

definition repo_project_name :: "env \<Rightarrow> state \<Rightarrow> py_error + pystr" where
  "repo_project_name env st =
     (case development_plan st of
        None \<Rightarrow> Inl AttributeError
      | Some plan \<Rightarrow>
          (case json_get plan (str ''project_name'') (JStr (str ''react-app'')) of
             Inl e \<Rightarrow> Inl e
           | Inr (JStr name) \<Rightarrow> Inr (py_replace (str '' '') (str ''-'') (lower env name))
           | Inr _ \<Rightarrow> Inl AttributeError))"

text \<open>The files of a milestone and its commit message, chosen by the stage name.\<close>

definition files_to_commit :: "env \<Rightarrow> pystr \<Rightarrow> state \<Rightarrow> pystr pydict \<times> pystr" where
  "files_to_commit env project_name st =
     (let stage = current_stage st
      in if py_in (str ''code_written'') stage then
           (dict_merge (code_files st) (unit_tests st),
            str ''feat: Add application code with unit tests'')
         else if py_in (str ''tests_written'') stage then
           (e2e_tests st, str ''test: Add E2E Playwright tests'')
         else if py_in (str ''deployment_complete'') stage then
           ([(str ''README.md'',
              str ''# '' @ project_name @ [10, 10] @ str ''Live: ''
                @ py_str_opt env (deployment_url st))],
            str ''docs: Add deployment URL'')
         else ([], []))"

text \<open>The commit loop: one \<open>commit_file\<close> per file, its result ignored.\<close>

fun commit_all ::
  "env \<Rightarrow> request list \<Rightarrow> json pydict \<Rightarrow> pystr \<Rightarrow> pystr pydict \<Rightarrow> request list"
where
  "commit_all env log repo commit_msg [] = log"
| "commit_all env log repo commit_msg ((filename, body) # files) =
     commit_all env
       (snd (github_operation env log (str ''commit_file'') repo
               [(str ''path'', JStr filename), (str ''content'', JStr body),
                (str ''message'', JStr commit_msg)]))
       repo commit_msg files"

definition LOCAL_ONLY :: pystr where "LOCAL_ONLY = str ''local-only''"

definition github_agent_node ::
  "env \<Rightarrow> request list \<Rightarrow> state \<Rightarrow> (py_error + state) \<times> request list"
where
  "github_agent_node env log st =
     (case repo_project_name env st of
        Inl e \<Rightarrow> (Inl e, log)
      | Inr project_name \<Rightarrow>
          (case (case github_repo st of None \<Rightarrow> None | Some r \<Rightarrow> if r = [] then None else Some r) of
             None \<Rightarrow>
               (let (result, log') =
                      github_operation env log (str ''create_repo'') []
                        [(str ''name'', JStr project_name),
                         (str ''description'', JStr (take 100 (requirements st)))]
                in case dict_item result (str ''success'') of
                     Inl e \<Rightarrow> (Inl e, log')
                   | Inr ok \<Rightarrow>
                       if truthy ok then
                         (case dict_item result (str ''name'') of
                            Inl e \<Rightarrow> (Inl e, log')
                          | Inr name \<Rightarrow>
                         (case dict_item result (str ''repo_url'') of
                            Inl e \<Rightarrow> (Inl e, log')
                          | Inr repo_url \<Rightarrow>
                         (case dict_item result (str ''owner'') of
                            Inl e \<Rightarrow> (Inl e, log')
                          | Inr owner \<Rightarrow>
                              (Inr (st\<lparr>github_repo :=
                                      Some [(str ''name'', name), (str ''url'', repo_url),
                                            (str ''owner'', owner),
                                            (str ''branch'', JStr (str ''main''))]\<rparr>),
                               log'))))
                       else
                         (Inr (st\<lparr>github_repo :=
                                 Some [(str ''name'', JStr project_name),
                                       (str ''url'', JStr LOCAL_ONLY)]\<rparr>),
                          log'))
           | Some repo \<Rightarrow>
               (case dict_item repo (str ''url'') of
                  Inl e \<Rightarrow> (Inl e, log)
                | Inr repo_url \<Rightarrow>
                    if repo_url = JStr LOCAL_ONLY then (Inr st, log)
                    else
                      (let (files, commit_msg) = files_to_commit env project_name st
                       in (Inr st, commit_all env log repo commit_msg (take 10 files))))))"

section \<open>The generating stages\<close>

definition ARCHITECT :: pystr where
  "ARCHITECT = str ''You are a senior technical architect.''"
definition REACT_DEVELOPER :: pystr where
  "REACT_DEVELOPER = str ''You are an expert React developer.''"
definition UNIT_TEST_EXPERT :: pystr where
  "UNIT_TEST_EXPERT = str ''You are a QA expert specializing in unit tests.''"
definition E2E_EXPERT :: pystr where
  "E2E_EXPERT = str ''You are a QA expert specializing in Playwright E2E testing.''"

text \<open>
  \<open>planner_node\<close>.  The text between the first \<open>{\<close> and the last \<open>}\<close> is parsed; the plan
  is stored before its \<open>project_name\<close> is read for the message, and the bare \<open>except\<close>
  records whatever fails.  The stage is set in every case.
\<close>

definition planner_try :: "env \<Rightarrow> pystr \<Rightarrow> state \<Rightarrow> state" where
  "planner_try env text st =
     (let json_start = py_find (str ''{'') text;
          json_end = py_rfind (str ''}'') text + 1
      in case json_loads env (py_slice text json_start json_end) of
           None \<Rightarrow> st\<lparr>errors := errors st @ [str ''Failed to parse plan'']\<rparr>
         | Some plan \<Rightarrow>
             (let st1 = st\<lparr>development_plan := Some plan\<rparr>
              in case json_item plan (str ''project_name'') of
                   Inl e \<Rightarrow> st1\<lparr>errors := errors st1 @ [str ''Failed to parse plan'']\<rparr>
                 | Inr name \<Rightarrow>
                     st1\<lparr>messages := messages st1
                            @ [(str ''planner'', str ''Plan created: '' @ py_str env name)]\<rparr>))"

definition planner_node :: "env \<Rightarrow> state \<Rightarrow> py_error + state" where
  "planner_node env st =
     (let result = call_claude env ARCHITECT;
          st1 = (if success result then planner_try env (content result) st else st)
      in Inr (st1\<lparr>current_stage := str ''planning_complete''\<rparr>))"

text \<open>\<open>plan = state['development_plan']\<close> and \<open>plan['project_name']\<close>: the plan may be \<open>None\<close>.\<close>

definition plan_project_name :: "state \<Rightarrow> py_error + json \<times> json" where
  "plan_project_name st =
     (case development_plan st of
        None \<Rightarrow> Inl TypeError
      | Some plan \<Rightarrow>
          (case json_item plan (str ''project_name'') of
             Inl e \<Rightarrow> Inl e
           | Inr project_name \<Rightarrow> Inr (plan, project_name)))"

text \<open>
  What the prompts read from the plan before the generator is called:
  \<open>plan.get('file_structure', {}).keys()\<close> needs a dictionary,
  \<open>plan.get('components', [])[:3]\<close> a list or a string, and
  \<open>chr(10).join(plan.get('features', []))\<close> an iterable of strings.
\<close>

definition code_prompt_check :: "json \<Rightarrow> py_error option" where
  "code_prompt_check plan =
     (case json_get plan (str ''file_structure'') (JObj []) of
        Inl e \<Rightarrow> Some e
      | Inr (JObj d) \<Rightarrow> None
      | Inr _ \<Rightarrow> Some AttributeError)"

definition unit_test_prompt_check :: "json \<Rightarrow> py_error option" where
  "unit_test_prompt_check plan =
     (case json_get plan (str ''components'') (JArr []) of
        Inl e \<Rightarrow> Some e
      | Inr (JArr xs) \<Rightarrow> None
      | Inr (JStr s) \<Rightarrow> None
      | Inr _ \<Rightarrow> Some TypeError)"

definition is_JStr :: "json \<Rightarrow> bool" where
  "is_JStr v = (case v of JStr s \<Rightarrow> True | _ \<Rightarrow> False)"

definition e2e_prompt_check :: "json \<Rightarrow> py_error option" where
  "e2e_prompt_check plan =
     (case json_get plan (str ''features'') (JArr []) of
        Inl e \<Rightarrow> Some e
      | Inr features \<Rightarrow>
          (case py_iter features of
             Inl e \<Rightarrow> Some e
           | Inr xs \<Rightarrow> if list_all is_JStr xs then None else Some TypeError))"

text \<open>
  One generation with its parse: on \<open>success\<close> the files are parsed and saved, otherwise
  the mapping stays empty and the field of the state is not assigned.
\<close>

definition generate_files ::
  "env \<Rightarrow> pystr \<Rightarrow> json \<Rightarrow> py_error + pystr pydict option"
where
  "generate_files env system_prompt project_name =
     (let result = call_claude env system_prompt
      in if success result then
           (case parse_files (save_file env project_name) (content result) of
              Inl e \<Rightarrow> Inl e
            | Inr files \<Rightarrow> Inr (Some files))
         else Inr None)"

definition developer_node :: "env \<Rightarrow> state \<Rightarrow> py_error + state" where
  "developer_node env st =
     (case plan_project_name st of
        Inl e \<Rightarrow> Inl e
      | Inr (plan, project_name) \<Rightarrow>
          (case code_prompt_check plan of
                Some e \<Rightarrow> Inl e
              | None \<Rightarrow>
             (case generate_files env REACT_DEVELOPER project_name of
                Inl e \<Rightarrow> Inl e
              | Inr code \<Rightarrow>
                  (let st1 = (case code of None \<Rightarrow> st | Some files \<Rightarrow> st\<lparr>code_files := files\<rparr>)
                   in case unit_test_prompt_check plan of
                        Some e \<Rightarrow> Inl e
                      | None \<Rightarrow>
                     (case generate_files env UNIT_TEST_EXPERT project_name of
                        Inl e \<Rightarrow> Inl e
                      | Inr tests \<Rightarrow>
                          (let st2 = (case tests of None \<Rightarrow> st1
                                      | Some files \<Rightarrow> st1\<lparr>unit_tests := files\<rparr>)
                           in Inr (st2\<lparr>current_stage := str ''code_written'',
                                       iteration_count := iteration_count st2 + 1\<rparr>)))))))"

definition tester_node :: "env \<Rightarrow> state \<Rightarrow> py_error + state" where
  "tester_node env st =
     (case plan_project_name st of
        Inl e \<Rightarrow> Inl e
      | Inr (plan, project_name) \<Rightarrow>
          (case e2e_prompt_check plan of
                Some e \<Rightarrow> Inl e
              | None \<Rightarrow>
             (case generate_files env E2E_EXPERT project_name of
                Inl e \<Rightarrow> Inl e
              | Inr tests \<Rightarrow>
                  (let st1 = (case tests of None \<Rightarrow> st | Some files \<Rightarrow> st\<lparr>e2e_tests := files\<rparr>)
                   in Inr (st1\<lparr>current_stage := str ''tests_written''\<rparr>)))))"

section \<open>Deployment\<close>

definition deploy_to_vercel ::
  "env \<Rightarrow> request list \<Rightarrow> json \<Rightarrow> json pydict option \<Rightarrow> json pydict \<times> request list"
where
  "deploy_to_vercel env log project_name repo_opt =
     (case vercel_token env of
        None \<Rightarrow> (failure (str ''No Vercel token''), log)
      | Some token \<Rightarrow>
          if token = [] then (failure (str ''No Vercel token''), log)
          else
            (case repo_opt of
               None \<Rightarrow> (failure (exc_text env TypeError), log)
             | Some repo \<Rightarrow>
            (case dict_item repo (str ''owner'') of
               Inl e \<Rightarrow> (failure (exc_text env e), log)
             | Inr owner \<Rightarrow>
            (case dict_item repo (str ''name'') of
               Inl e \<Rightarrow> (failure (exc_text env e), log)
             | Inr name \<Rightarrow>
                 (let req = Request POST (str ''https://api.vercel.com/v13/deployments'') token
                              (Some [(str ''name'', project_name),
                                     (str ''gitSource'',
                                      JObj [(str ''type'', JStr (str ''github'')),
                                            (str ''repo'',
                                             JStr (py_str env owner @ str ''/'' @ py_str env name)),
                                            (str ''ref'', JStr (str ''main''))]),
                                     (str ''buildCommand'', JStr (str ''npm run build'')),
                                     (str ''framework'', JStr (str ''vite''))]);
                      log' = log @ [req]
                  in case http env log req of
                       Inl msg \<Rightarrow> (failure msg, log')
                     | Inr response \<Rightarrow>
                         if status_code response = 200 \<or> status_code response = 201 then
                           (case json_body response of
                              None \<Rightarrow> (failure (exc_text env ValueError), log')
                            | Some data \<Rightarrow>
                                (case json_get data (str ''url'') project_name of
                                   Inl e \<Rightarrow> (failure (exc_text env e), log')
                                 | Inr u \<Rightarrow>
                                (case json_get data (str ''id'') JNull of
                                   Inl e \<Rightarrow> (failure (exc_text env e), log')
                                 | Inr deployment_id \<Rightarrow>
                                     ([(str ''success'', JBool True),
                                       (str ''url'',
                                        JStr (str ''https://'' @ py_str env u @ str ''.vercel.app'')),
                                       (str ''deployment_id'', deployment_id)], log'))))
                         else (status_failure (status_code response), log'))))))"

definition deployer_node ::
  "env \<Rightarrow> request list \<Rightarrow> state \<Rightarrow> (py_error + state) \<times> request list"
where
  "deployer_node env log st =
     (case plan_project_name st of
        Inl e \<Rightarrow> (Inl e, log)
      | Inr (plan, project_name) \<Rightarrow>
          (let (result, log') = deploy_to_vercel env log project_name (github_repo st)
           in case dict_item result (str ''success'') of
                Inl e \<Rightarrow> (Inl e, log')
              | Inr ok \<Rightarrow>
                  if truthy ok then
                    (case dict_item result (str ''url'') of
                       Inl e \<Rightarrow> (Inl e, log')
                     | Inr u \<Rightarrow>
                         (Inr (st\<lparr>deployment_url := Some u,
                                  deployment_platform := str ''vercel'',
                                  current_stage := str ''deployment_complete''\<rparr>), log'))
                  else
                    (Inr (st\<lparr>errors := errors st
                                @ [str ''Deployment failed: ''
                                     @ py_str_opt env (map_of result (str ''error''))],
                              current_stage := str ''deployment_complete''\<rparr>), log')))"

section \<open>The workflow graph\<close>

text \<open>
  \<open>create_workflow\<close>: eight nodes, an entry point and one outgoing edge per node.  A run
  starts at the entry point, gives the state a node returns to the node its edge names,
  stops at \<open>END\<close> or when a node raises, and makes at most \<open>recursion_limit\<close> steps (the
  graph library's default is 25).  The run records the state after every node.  The two
  fields declared with the \<open>add\<close> reducer, \<open>messages\<close> and \<open>conversation_history\<close>, are
  passed on as the node returns them: the library appends the returned list to the stored
  one after every node, which this run does not do.  No stage reads either field, so the
  order of the nodes, \<open>current_stage\<close> and \<open>errors\<close> do not depend on it.
\<close>

type_synonym handler = "env \<Rightarrow> request list \<Rightarrow> state \<Rightarrow> (py_error + state) \<times> request list"

definition pure_node :: "(env \<Rightarrow> state \<Rightarrow> py_error + state) \<Rightarrow> handler" where
  "pure_node f env log st = (f env st, log)"

definition END :: pystr where "END = str ''__end__''"

definition workflow_nodes :: "(pystr \<times> handler) list" where
  "workflow_nodes =
     [(str ''github_init'', github_agent_node),
      (str ''planner'', pure_node planner_node),
      (str ''developer'', pure_node developer_node),
      (str ''github_commit_code'', github_agent_node),
      (str ''tester'', pure_node tester_node),
      (str ''github_commit_tests'', github_agent_node),
      (str ''deployer'', deployer_node),
      (str ''github_commit_deploy'', github_agent_node)]"

definition entry_point :: pystr where "entry_point = str ''github_init''"

definition workflow_edges :: "(pystr \<times> pystr) list" where
  "workflow_edges =
     [(str ''github_init'', str ''planner''),
      (str ''planner'', str ''developer''),
      (str ''developer'', str ''github_commit_code''),
      (str ''github_commit_code'', str ''tester''),
      (str ''tester'', str ''github_commit_tests''),
      (str ''github_commit_tests'', str ''deployer''),
      (str ''deployer'', str ''github_commit_deploy''),
      (str ''github_commit_deploy'', END)]"

datatype outcome = Finished | Node_raised py_error | No_such_node | Recursion_limit

fun run_from ::
  "nat \<Rightarrow> env \<Rightarrow> pystr \<Rightarrow> request list \<Rightarrow> state
     \<Rightarrow> (pystr \<times> state) list \<times> outcome \<times> request list"
where
  "run_from 0 env node log st =
     (if node = END then ([], Finished, log) else ([], Recursion_limit, log))"
| "run_from (Suc fuel) env node log st =
     (if node = END then ([], Finished, log)
      else case map_of workflow_nodes node of
             None \<Rightarrow> ([], No_such_node, log)
           | Some handler \<Rightarrow>
               (case handler env log st of
                  (Inl e, log') \<Rightarrow> ([], Node_raised e, log')
                | (Inr st', log') \<Rightarrow>
                    (case map_of workflow_edges node of
                       None \<Rightarrow> ([(node, st')], No_such_node, log')
                     | Some next_node \<Rightarrow>
                         (let (trace, out, log'') = run_from fuel env next_node log' st'
                          in ((node, st') # trace, out, log'')))))"

definition recursion_limit :: nat where "recursion_limit = 25"

definition run_workflow ::
  "env \<Rightarrow> state \<Rightarrow> (pystr \<times> state) list \<times> outcome \<times> request list"
where
  "run_workflow env st = run_from recursion_limit env entry_point [] st"

text \<open>
  The order of the nodes along the edges, and the values of \<open>current_stage\<close> a run goes
  through: the value at the start and the value after every node that returned.
\<close>

definition node_chain :: "pystr list" where
  "node_chain =
     [str ''github_init'', str ''planner'', str ''developer'', str ''github_commit_code'',
      str ''tester'', str ''github_commit_tests'', str ''deployer'',
      str ''github_commit_deploy'']"

definition stage_trace :: "(pystr \<times> state) list \<Rightarrow> pystr list" where
  "stage_trace trace = map (\<lambda>p. current_stage (snd p)) trace"

definition stages_of_run :: "env \<Rightarrow> state \<Rightarrow> pystr list" where
  "stages_of_run env st = current_stage st # stage_trace (fst (run_workflow env st))"

definition outcome_of_run :: "env \<Rightarrow> state \<Rightarrow> outcome" where
  "outcome_of_run env st = fst (snd (run_workflow env st))"

section \<open>The manager chat\<close>

definition approval_keywords :: "pystr list" where
  "approval_keywords =
     [str ''approved'', str ''looks good'', str ''proceed'', str ''start building'',
      str ''yes that'' @ [39] @ str ''s good'', str ''perfect'', str ''correct'',
      str ''satisfied'']"

definition is_approved :: "env \<Rightarrow> pystr \<Rightarrow> bool" where
  "is_approved env user_message =
     list_ex (\<lambda>keyword. py_in keyword (lower env user_message)) approval_keywords"

definition PM_SUMMARY :: pystr where
  "PM_SUMMARY = str ''You are a senior product manager who writes clear requirements.''"
definition PM_GATHER :: pystr where
  "PM_GATHER = str ''You are a helpful product manager gathering requirements.''"

text \<open>
  The reply on approval: the source's literal (three code points as the file has them,
  then the heading), the generated document, and the closing line.
\<close>

definition approval_response :: "pystr \<Rightarrow> pystr" where
  "approval_response document =
     [226, 339, 8230] @ str '' **Requirements Approved!**'' @ [10, 10] @ document
       @ [10, 10] @ str ''Proceeding to development...''"

definition manager_agent ::
  "env \<Rightarrow> pystr \<Rightarrow> (pystr \<times> pystr) list \<Rightarrow> pystr \<times> (pystr \<times> pystr) list \<times> bool"
where
  "manager_agent env user_message history =
     (let history1 = history @ [(str ''user'', user_message)]
      in if is_approved env user_message then
           (let result = call_claude env PM_SUMMARY;
                response = approval_response (content result)
            in (response, history1 @ [(str ''assistant'', response)], True))
         else
           (let result = call_claude env PM_GATHER;
                response = content result
            in (response, history1 @ [(str ''assistant'', response)], False)))"

text \<open>\<open>AgenticDevSystem\<close>: the fields \<open>chat_with_manager\<close> uses, and the method.\<close>

record agentic_dev_system =
  self_conversation_history :: "(pystr \<times> pystr) list"
  self_requirements :: "pystr option"

definition new_system :: agentic_dev_system where
  "new_system = \<lparr> self_conversation_history = [], self_requirements = None \<rparr>"

definition chat_with_manager ::
  "env \<Rightarrow> agentic_dev_system \<Rightarrow> pystr \<Rightarrow> (pystr \<times> pystr) list
     \<Rightarrow> (pystr \<times> (pystr \<times> pystr) list \<times> pystr) \<times> agentic_dev_system"
where
  "chat_with_manager env self user_message history =
     (let (response, history', approved) =
            manager_agent env user_message (self_conversation_history self);
          self1 = self\<lparr>self_conversation_history := history'\<rparr>
      in if approved then
           ((response, history @ [(user_message, response)], str ''approved''),
            self1\<lparr>self_requirements := Some response\<rparr>)
         else
           ((response, history @ [(user_message, response)], str ''continue''), self1))"

section \<open>Test execution\<close>

text \<open>
  A subprocess call either raises (timeout, missing program: \<open>Inl\<close> with the exception's
  text) or returns the two captured streams; a non-zero exit status does not raise.
\<close>

type_synonym proc_result = "pystr + pystr \<times> pystr"

definition error_result :: "pystr \<Rightarrow> json pydict" where
  "error_result msg =
     [(str ''success'', JBool False), (str ''error'', JStr msg), (str ''total'', JNum 0),
      (str ''passed'', JNum 0), (str ''failed'', JNum 0)]"

text \<open>
  The two literals the fallback counts, code point by code point as the source file has
  them.  Each is three characters: the bytes of the check mark U+2713 and of the ballot X
  U+2717 read in a one-byte encoding.  \<open>CHECK_MARK\<close> and \<open>BALLOT_X\<close> are the two glyphs
  themselves, one character each, as a test runner prints them.
\<close>

definition PASS_GLYPH :: pystr where "PASS_GLYPH = [226, 339, 8220]"
definition FAIL_GLYPH :: pystr where "FAIL_GLYPH = [226, 339, 8212]"

definition CHECK_MARK :: pystr where "CHECK_MARK = [10003]"
definition BALLOT_X :: pystr where "BALLOT_X = [10007]"

text \<open>
  The report of the unit-test runner: the JSON report when \<open>stdout\<close> parses to a
  dictionary, otherwise (the bare \<open>except\<close>) the count of the glyphs in both streams.
\<close>

definition unit_report :: "env \<Rightarrow> pystr \<Rightarrow> json pydict option" where
  "unit_report env stdout =
     (case json_loads env stdout of
        Some (JObj data) \<Rightarrow>
          Some [(str ''success'', JBool True),
                (str ''total'', dict_get data (str ''numTotalTests'') (JNum 0)),
                (str ''passed'', dict_get data (str ''numPassedTests'') (JNum 0)),
                (str ''failed'', dict_get data (str ''numFailedTests'') (JNum 0)),
                (str ''details'', dict_get data (str ''testResults'') (JArr []))]
      | _ \<Rightarrow> None)"

definition unit_fallback :: "pystr \<Rightarrow> json pydict" where
  "unit_fallback lines =
     [(str ''success'', JBool True),
      (str ''total'', JNum (int (py_count PASS_GLYPH lines) + int (py_count FAIL_GLYPH lines))),
      (str ''passed'', JNum (int (py_count PASS_GLYPH lines))),
      (str ''failed'', JNum (int (py_count FAIL_GLYPH lines))),
      (str ''details'', JArr [])]"

definition run_unit_tests :: "env \<Rightarrow> proc_result \<Rightarrow> proc_result \<Rightarrow> json pydict" where
  "run_unit_tests env npm_install vitest_run =
     (case npm_install of
        Inl msg \<Rightarrow> error_result msg
      | Inr _ \<Rightarrow>
          (case vitest_run of
             Inl msg \<Rightarrow> error_result msg
           | Inr (stdout, stderr) \<Rightarrow>
               (case unit_report env stdout of
                  Some report \<Rightarrow> report
                | None \<Rightarrow> unit_fallback (stdout @ stderr))))"

text \<open>
  The end-to-end report: suites, their specs, their tests.  Each test gives one entry of
  \<open>details\<close>; anything that raises on the way makes the whole report a failure.
\<close>

fun map_err :: "('a \<Rightarrow> py_error + 'b) \<Rightarrow> 'a list \<Rightarrow> py_error + 'b list" where
  "map_err f [] = Inr []"
| "map_err f (x # xs) =
     (case f x of
        Inl e \<Rightarrow> Inl e
      | Inr y \<Rightarrow> (case map_err f xs of Inl e \<Rightarrow> Inl e | Inr ys \<Rightarrow> Inr (y # ys)))"

definition test_detail :: "json \<Rightarrow> py_error + json \<times> json pydict" where
  "test_detail test =
     (case json_get test (str ''status'') (JStr (str ''unknown'')) of
        Inl e \<Rightarrow> Inl e
      | Inr status \<Rightarrow>
     (case json_get test (str ''title'') JNull of
        Inl e \<Rightarrow> Inl e
      | Inr title \<Rightarrow>
          if status \<noteq> JStr (str ''passed'') then
            (case json_get test (str ''error'') (JObj []) of
               Inl e \<Rightarrow> Inl e
             | Inr err \<Rightarrow>
            (case json_get err (str ''message'') JNull of
               Inl e \<Rightarrow> Inl e
             | Inr msg \<Rightarrow>
                 Inr (status, [(str ''test'', title), (str ''status'', status),
                               (str ''error'', msg)])))
          else Inr (status, [(str ''test'', title), (str ''status'', status),
                             (str ''error'', JNull)])))"

definition children :: "json \<Rightarrow> pystr \<Rightarrow> py_error + json list" where
  "children v key =
     (case json_get v key (JArr []) of Inl e \<Rightarrow> Inl e | Inr xs \<Rightarrow> py_iter xs)"

definition spec_details :: "json \<Rightarrow> py_error + (json \<times> json pydict) list" where
  "spec_details spec =
     (case children spec (str ''tests'') of
        Inl e \<Rightarrow> Inl e
      | Inr tests \<Rightarrow> map_err test_detail tests)"

definition suite_details :: "json \<Rightarrow> py_error + (json \<times> json pydict) list" where
  "suite_details suite =
     (case children suite (str ''specs'') of
        Inl e \<Rightarrow> Inl e
      | Inr specs \<Rightarrow>
          (case map_err spec_details specs of Inl e \<Rightarrow> Inl e | Inr ds \<Rightarrow> Inr (concat ds)))"

definition e2e_report :: "env \<Rightarrow> pystr \<Rightarrow> json pydict" where
  "e2e_report env stdout =
     (case (case json_loads env stdout of
              None \<Rightarrow> Inl ValueError
            | Some data \<Rightarrow>
                (case children data (str ''suites'') of
                   Inl e \<Rightarrow> Inl e
                 | Inr suites \<Rightarrow>
                     (case map_err suite_details suites of
                        Inl e \<Rightarrow> Inl e
                      | Inr ds \<Rightarrow> Inr (concat ds)))) of
        Inl e \<Rightarrow> error_result (str ''Failed to parse test results'')
      | Inr details \<Rightarrow>
          (let passed = length (filter (\<lambda>d. fst d = JStr (str ''passed'')) details)
           in [(str ''success'', JBool True),
               (str ''total'', JNum (int (length details))),
               (str ''passed'', JNum (int passed)),
               (str ''failed'', JNum (int (length details - passed))),
               (str ''details'', JArr (map (\<lambda>d. JObj (snd d)) details))]))"

text \<open>
  \<open>run_e2e_tests\<close>, with the life of the dev-server process it spawns.  The handler of
  the outer \<open>try\<close> returns the failure dictionary and does nothing else; \<open>terminate\<close> and
  \<open>wait\<close> are called only after the test run has returned.
\<close>

datatype dev_server = Not_started | Running | Terminated

definition run_e2e_tests ::
  "env \<Rightarrow> proc_result \<Rightarrow> pystr option \<Rightarrow> proc_result \<Rightarrow> json pydict \<times> dev_server"
where
  "run_e2e_tests env playwright_install popen playwright_test =
     (case playwright_install of
        Inl msg \<Rightarrow> (error_result msg, Not_started)
      | Inr _ \<Rightarrow>
          (case popen of
             Some msg \<Rightarrow> (error_result msg, Not_started)
           | None \<Rightarrow>
               (case playwright_test of
                  Inl msg \<Rightarrow> (error_result msg, Running)
                | Inr (stdout, stderr) \<Rightarrow> (e2e_report env stdout, Terminated))))"

section \<open>Sample environments\<close>

text \<open>
  Concrete collaborators for evaluating the model.  \<open>ascii_lower\<close> is \<open>str.lower\<close> on
  ASCII text.  In \<open>offline_env\<close> no token is set and every generation fails, as
  \<open>call_claude\<close> reports a client error.  In \<open>sample_env\<close> the generator answers: a plan
  to the architect's prompt and one delimited file to every other prompt; \<open>json.loads\<close>
  reads the plan text.
\<close>

definition ascii_lower :: "pystr \<Rightarrow> pystr" where
  "ascii_lower s = map (\<lambda>c. if 65 \<le> c \<and> c \<le> 90 then c + 32 else c) s"

definition offline_env :: env where
  "offline_env =
     \<lparr> github_token = None, vercel_token = None,
       http = (\<lambda>log req. Inl (str ''connection refused'')),
       call_claude = (\<lambda>system_prompt.
          \<lparr> content = str ''Error: offline'', success = False, error = Some (str ''offline'') \<rparr>),
       json_loads = (\<lambda>s. None),
       fs_write = (\<lambda>project filename body. None),
       lower = ascii_lower,
       repr = (\<lambda>v. str ''...''),
       b64encode = (\<lambda>s. s),
       exc_text = (\<lambda>e. str ''error'') \<rparr>"

definition sample_plan_text :: pystr where
  "sample_plan_text = str ''Plan: {\"project_name\": \"Todo App\"} done''"

definition sample_plan :: json where
  "sample_plan = JObj [(str ''project_name'', JStr (str ''Todo App''))]"

definition sample_files_text :: pystr where
  "sample_files_text = str ''===FILE: src/App.jsx==='' @ [10] @ str ''export default 1''
                         @ [10] @ str ''===END FILE===''"

definition sample_env :: env where
  "sample_env =
     offline_env
       \<lparr> call_claude := (\<lambda>system_prompt.
            \<lparr> content = (if system_prompt = ARCHITECT then sample_plan_text
                          else sample_files_text),
              success = True, error = None \<rparr>),
         json_loads := (\<lambda>s. if s = str ''{\"project_name\": \"Todo App\"}'' then Some sample_plan
                             else None) \<rparr>"

text \<open>
  The state a run starts with, and a state in which a plan is already present when the
  workflow starts.
\<close>

definition start_state :: state where
  "start_state = initial_state (str ''a todo app'') []"

definition planned_state :: state where
  "planned_state = start_state\<lparr>development_plan := Some sample_plan\<rparr>"

text \<open>
  The states of the run of \<open>sample_env\<close> from \<open>planned_state\<close>: no token is set, so the
  repository stays local and the deployment fails; the generator's file is parsed thrice.
\<close>

definition sample_files :: "pystr pydict" where
  "sample_files = [(str ''src/App.jsx'', str ''export default 1'')]"

definition after_github_init :: state where
  "after_github_init =
     planned_state\<lparr>github_repo :=
       Some [(str ''name'', JStr (str ''todo-app'')), (str ''url'', JStr LOCAL_ONLY)]\<rparr>"

definition after_planner :: state where
  "after_planner =
     after_github_init
       \<lparr>messages := [(str ''planner'', str ''Plan created: Todo App'')],
        current_stage := str ''planning_complete''\<rparr>"

definition after_developer :: state where
  "after_developer =
     after_planner
       \<lparr>code_files := sample_files, unit_tests := sample_files,
        current_stage := str ''code_written'', iteration_count := 1\<rparr>"

definition after_tester :: state where
  "after_tester =
     after_developer\<lparr>e2e_tests := sample_files, current_stage := str ''tests_written''\<rparr>"

definition after_deployer :: state where
  "after_deployer =
     after_tester
       \<lparr>errors := [str ''Deployment failed: No Vercel token''],
        current_stage := str ''deployment_complete''\<rparr>"

definition sample_trace :: "(pystr \<times> state) list" where
  "sample_trace =
     [(str ''github_init'', after_github_init), (str ''planner'', after_planner),
      (str ''developer'', after_developer), (str ''github_commit_code'', after_developer),
      (str ''tester'', after_tester), (str ''github_commit_tests'', after_tester),
      (str ''deployer'', after_deployer), (str ''github_commit_deploy'', after_deployer)]"

text \<open>
  A project directory that exists on disk: \<open>save_file\<close> with an empty file name opens
  the directory itself for writing, which raises; every other write is accepted.
\<close>

definition dir_store :: "pystr \<Rightarrow> pystr \<Rightarrow> pystr \<Rightarrow> py_error option" where
  "dir_store project filename body = (if filename = [] then Some IsADirectoryError else None)"

definition dir_env :: env where
  "dir_env = sample_env\<lparr>fs_write := dir_store\<rparr>"

text \<open>
  A repository host that knows one file, \<open>README.md\<close> of \<open>octo/todo-app\<close>, and accepts
  every write; and a unit-test runner's report with its parsed form.
\<close>

definition sample_github :: "request list \<Rightarrow> request \<Rightarrow> pystr + http_response" where
  "sample_github log req =
     (case verb req of
        GET \<Rightarrow>
          if url req = str ''https://api.github.com/repos/octo/todo-app/contents/README.md''
          then Inr \<lparr> status_code = 200,
                     json_body = Some (JObj [(str ''sha'', JStr (str ''abc123''))]) \<rparr>
          else Inr \<lparr> status_code = 404,
                     json_body = Some (JObj [(str ''message'', JStr (str ''Not Found''))]) \<rparr>
      | PUT \<Rightarrow> Inr \<lparr> status_code = 200, json_body = Some (JObj []) \<rparr>
      | POST \<Rightarrow>
          Inr \<lparr> status_code = 201,
                json_body = Some (JObj [(str ''html_url'', JStr (str ''https://github.com/octo/todo-app'')),
                                        (str ''owner'', JObj [(str ''login'', JStr (str ''octo''))]),
                                        (str ''name'', JStr (str ''todo-app''))]) \<rparr>)"

definition github_env :: env where
  "github_env = offline_env\<lparr>github_token := Some (str ''token''), http := sample_github\<rparr>"

definition sample_repo :: "json pydict" where
  "sample_repo =
     [(str ''name'', JStr (str ''todo-app'')), (str ''url'', JStr (str ''https://github.com/octo/todo-app'')),
      (str ''owner'', JStr (str ''octo'')), (str ''branch'', JStr (str ''main''))]"

definition sample_report_text :: pystr where
  "sample_report_text =
     str ''{\"numTotalTests\": 5, \"numPassedTests\": 3, \"numFailedTests\": 2}''"

definition sample_report :: "json pydict" where
  "sample_report =
     [(str ''numTotalTests'', JNum 5), (str ''numPassedTests'', JNum 3),
      (str ''numFailedTests'', JNum 2)]"

definition report_env :: env where
  "report_env =
     offline_env\<lparr>json_loads := (\<lambda>s. if s = sample_report_text then Some (JObj sample_report)
                                      else None)\<rparr>"

section \<open>Properties of the artifact parser\<close>

lemma FILE_MARK_ne: "FILE_MARK \<noteq> []"
  by (simp add: FILE_MARK_def str_def)

lemma SEP_ne: "SEP \<noteq> []"
  by (simp add: SEP_def str_def)

lemma END_MARK_ne: "END_MARK \<noteq> []"
  by (simp add: END_MARK_def str_def)

lemma split1_aux_found:
  "sep \<noteq> [] \<Longrightarrow> py_in sep s \<Longrightarrow> \<exists>h t. split1_aux sep acc s = Some (h, t)"
  by (induction s arbitrary: acc) auto

lemma py_split1_found:
  "sep \<noteq> [] \<Longrightarrow> py_in sep s \<Longrightarrow> \<exists>h t. py_split1 sep s = Inr [h, t]"
  using split1_aux_found [of sep s "[]"] by (auto simp: py_split1_def)

text \<open>A split at most once cuts the text at the first occurrence of the separator.\<close>

lemma split1_aux_first:
  "sep \<noteq> [] \<Longrightarrow> split1_aux sep acc s = Some (h, t) \<Longrightarrow>
     \<exists>a. h = acc @ a \<and> s = a @ sep @ t \<and> (\<forall>i<length a. \<not> prefix sep (drop i s))"
proof (induction s arbitrary: acc)
  case Nil
  then show ?case by simp
next
  case (Cons c cs)
  show ?case
  proof (cases "prefix sep (c # cs)")
    case True
    with Cons.prems(2) have h: "h = acc" and t: "t = drop (length sep - 1) cs"
      by simp_all
    from True obtain zs where z: "c # cs = sep @ zs"
      by (auto simp: prefix_def)
    with Cons.prems(1) have "cs = tl sep @ zs"
      by (cases sep) auto
    then have "drop (length sep - 1) cs = zs"
      by simp
    with h t z show ?thesis
      by (intro exI [of _ "[]"]) simp
  next
    case False
    with Cons.prems(2) have "split1_aux sep (acc @ [c]) cs = Some (h, t)"
      by simp
    from Cons.IH [OF Cons.prems(1) this] obtain a
      where a: "h = (acc @ [c]) @ a" "cs = a @ sep @ t"
        "\<forall>i<length a. \<not> prefix sep (drop i cs)"
      by blast
    have "\<forall>i<length (c # a). \<not> prefix sep (drop i (c # cs))"
    proof (intro allI impI)
      fix i
      assume l: "i < length (c # a)"
      show "\<not> prefix sep (drop i (c # cs))"
      proof (cases i)
        case 0
        with False show ?thesis by simp
      next
        case (Suc j)
        with l a(3) show ?thesis by simp
      qed
    qed
    with a(1,2) show ?thesis
      by (intro exI [of _ "c # a"]) simp
  qed
qed

lemma py_split1_first:
  assumes "py_split1 SEP seg = Inr [header, body]"
  shows "seg = header @ SEP @ body \<and> (\<forall>i<length header. \<not> prefix SEP (drop i seg))"
proof -
  from assms have "split1_aux SEP [] seg = Some (header, body)"
    by (auto simp: py_split1_def SEP_ne split: option.splits)
  from split1_aux_first [OF SEP_ne this] show ?thesis
    by auto
qed

text \<open>The loop raises only where the store raises, and with that exception.\<close>

lemma parse_parts_failure:
  "parse_parts save parts files = Inl e \<Longrightarrow>
     \<exists>seg \<in> set parts. \<exists>h c. py_in SEP seg \<and> py_split1 SEP seg = Inr [h, c]
        \<and> save (fst (pair_of h c)) (snd (pair_of h c)) = Some e"
proof (induction parts arbitrary: files)
  case Nil
  then show ?case by simp
next
  case (Cons part parts)
  show ?case
  proof (cases "py_in SEP part")
    case False
    with Cons.prems have "parse_parts save parts files = Inl e" by simp
    from Cons.IH [OF this] show ?thesis by auto
  next
    case True
    then obtain h c where hc: "py_split1 SEP part = Inr [h, c]"
      using py_split1_found [OF SEP_ne] by blast
    show ?thesis
    proof (cases "save (fst (pair_of h c)) (snd (pair_of h c))")
      case None
      with True hc Cons.prems
      have "parse_parts save parts
              (AList.update (py_strip h) (py_strip (py_replace END_MARK [] c)) files) = Inl e"
        by (simp add: Let_def pair_of_def)
      from Cons.IH [OF this] show ?thesis by auto
    next
      case (Some e')
      with True hc Cons.prems have "e' = e"
        by (simp add: Let_def pair_of_def)
      with Some True hc show ?thesis by auto
    qed
  qed
qed

lemma parse_parts_accepting:
  "\<forall>filename body. save filename body = None \<Longrightarrow>
     \<exists>files'. parse_parts save parts files = Inr files'"
proof (induction parts arbitrary: files)
  case Nil
  show ?case by simp
next
  case (Cons part parts)
  show ?case
  proof (cases "py_in SEP part")
    case True
    then obtain h t where "py_split1 SEP part = Inr [h, t]"
      using py_split1_found [OF SEP_ne] by blast
    with True Cons.IH [OF Cons.prems] Cons.prems show ?thesis by (simp add: Let_def)
  next
    case False
    with Cons.IH [OF Cons.prems] show ?thesis by simp
  qed
qed

lemma parse_parts_filter:
  "parse_parts save (filter (py_in SEP) parts) files = parse_parts save parts files"
proof (induction parts arbitrary: files)
  case Nil
  show ?case by simp
next
  case (Cons part parts)
  show ?case
  proof (cases "py_in SEP part")
    case True
    then obtain h t where "py_split1 SEP part = Inr [h, t]"
      using py_split1_found [OF SEP_ne] by blast
    with True Cons.IH show ?thesis by (simp add: Let_def split: option.splits)
  next
    case False
    with Cons.IH show ?thesis by simp
  qed
qed

lemma parse_parts_no_sep:
  "\<forall>seg \<in> set parts. \<not> py_in SEP seg \<Longrightarrow> parse_parts save parts files = Inr files"
  by (induction parts) auto

text \<open>Up to the first occurrence of the separator, a split only fills its first piece.\<close>

lemma find_from_split:
  "sub \<noteq> [] \<Longrightarrow> find_from sub s i = int n \<Longrightarrow>
     i \<le> n \<and> tl (split_aux sub acc s) = tl (split_aux sub acc' (drop (n - i) s))"
proof (induction s arbitrary: acc i)
  case Nil
  then show ?case by simp
next
  case (Cons c cs)
  show ?case
  proof (cases "prefix sub (c # cs)")
    case True
    with Cons.prems show ?thesis by simp
  next
    case False
    with Cons.prems have f: "find_from sub cs (Suc i) = int n" by simp
    from Cons.IH [OF Cons.prems(1) f, of "acc @ [c]"]
    have "Suc i \<le> n" and
      t: "tl (split_aux sub (acc @ [c]) cs) = tl (split_aux sub acc' (drop (n - Suc i) cs))"
      by auto
    then have "drop (n - i) (c # cs) = drop (n - Suc i) cs"
      by (simp add: drop_Cons')
    with False t \<open>Suc i \<le> n\<close> show ?thesis by simp
  qed
qed

lemma parse_files_segments:
  "parse_files save text = parse_parts save (segments text) []"
  by (simp add: parse_files_def py_split_def FILE_MARK_ne segments_def)

lemma segments_drop:
  "py_find FILE_MARK text = int n \<Longrightarrow> segments text = segments (drop n text)"
  using find_from_split [OF FILE_MARK_ne, of "text" 0 n "[]" "[]"]
  by (simp add: py_find_def segments_def)

lemma update_set:
  "p \<in> set (AList.update k v al) \<Longrightarrow> p = (k, v) \<or> p \<in> set al"
  by (induction al) (auto split: if_splits)

text \<open>Every pair of the result was assigned from a segment that contains the separator.\<close>

lemma parse_parts_origin:
  "parse_parts save parts files = Inr files' \<Longrightarrow> p \<in> set files' \<Longrightarrow>
     p \<in> set files \<or>
     (\<exists>seg \<in> set parts. \<exists>h c. py_in SEP seg \<and> py_split1 SEP seg = Inr [h, c] \<and> p = pair_of h c)"
proof (induction parts arbitrary: files)
  case Nil
  then show ?case by simp
next
  case (Cons part parts)
  show ?case
  proof (cases "py_in SEP part")
    case False
    with Cons.prems have "parse_parts save parts files = Inr files'" by simp
    from Cons.IH [OF this Cons.prems(2)] show ?thesis by auto
  next
    case True
    then obtain h c where hc: "py_split1 SEP part = Inr [h, c]"
      using py_split1_found [OF SEP_ne] by blast
    with True Cons.prems(1)
    have "parse_parts save parts
            (AList.update (py_strip h) (py_strip (py_replace END_MARK [] c)) files) = Inr files'"
      by (simp add: Let_def split: option.splits)
    from Cons.IH [OF this Cons.prems(2)] show ?thesis
    proof
      assume "p \<in> set (AList.update (py_strip h) (py_strip (py_replace END_MARK [] c)) files)"
      then have "p = pair_of h c \<or> p \<in> set files"
        unfolding pair_of_def by (rule update_set)
      with True hc show ?thesis by auto
    next
      assume "\<exists>seg\<in>set parts. \<exists>h c.
                py_in SEP seg \<and> py_split1 SEP seg = Inr [h, c] \<and> p = pair_of h c"
      then show ?thesis by auto
    qed
  qed
qed

text \<open>
  Claim C5, as the code has it.  The loop of a generating stage, \<open>parse_files\<close> with the
  stage's \<open>save_file\<close> as the store, raises only when the store raises on the pair of a
  segment, and then with the store's exception; with a store that accepts every write it
  returns a mapping.  The text before the first start marker does not matter.  A segment
  that contains no \<open>===\<close> at all contributes nothing, and when no segment contains one
  the mapping is empty.  Every pair of the mapping comes from one segment, cut at the
  first \<open>===\<close> of that segment, whichever it is: the trimmed text before it is the path,
  the trimmed text after it without end markers is the content.
\<close>

theorem parse_files_raises_only_in_store:
  "(\<forall>e. parse_files save text = Inl e \<longrightarrow>
      (\<exists>seg \<in> set (segments text). \<exists>header body.
         py_in SEP seg \<and> py_split1 SEP seg = Inr [header, body]
         \<and> save (fst (pair_of header body)) (snd (pair_of header body)) = Some e))
   \<and> ((\<forall>filename body. save filename body = None) \<longrightarrow>
        (\<exists>files. parse_files save text = Inr files))
   \<and> (py_find FILE_MARK text = int n \<longrightarrow> parse_files save text = parse_files save (drop n text))
   \<and> parse_files save text = parse_parts save (filter (py_in SEP) (segments text)) []
   \<and> ((\<forall>seg \<in> set (segments text). \<not> py_in SEP seg) \<longrightarrow> parse_files save text = Inr [])
   \<and> (\<forall>files p. parse_files save text = Inr files \<and> p \<in> set files \<longrightarrow>
         (\<exists>seg \<in> set (segments text). \<exists>header body.
            seg = header @ SEP @ body \<and> (\<forall>i<length header. \<not> prefix SEP (drop i seg))
            \<and> p = pair_of header body))"
proof (intro conjI allI impI)
  fix e
  assume "parse_files save text = Inl e"
  then show "\<exists>seg \<in> set (segments text). \<exists>header body.
         py_in SEP seg \<and> py_split1 SEP seg = Inr [header, body]
         \<and> save (fst (pair_of header body)) (snd (pair_of header body)) = Some e"
    unfolding parse_files_segments by (rule parse_parts_failure)
next
  assume "\<forall>filename body. save filename body = None"
  then show "\<exists>files. parse_files save text = Inr files"
    unfolding parse_files_segments by (rule parse_parts_accepting)
next
  assume "py_find FILE_MARK text = int n"
  then show "parse_files save text = parse_files save (drop n text)"
    unfolding parse_files_segments by (simp add: segments_drop)
next
  show "parse_files save text = parse_parts save (filter (py_in SEP) (segments text)) []"
    unfolding parse_files_segments by (simp add: parse_parts_filter)
next
  assume "\<forall>seg \<in> set (segments text). \<not> py_in SEP seg"
  then show "parse_files save text = Inr []"
    unfolding parse_files_segments by (rule parse_parts_no_sep)
next
  fix files p
  assume "parse_files save text = Inr files \<and> p \<in> set files"
  then have "parse_parts save (segments text) [] = Inr files" "p \<in> set files"
    by (simp_all add: parse_files_segments)
  from parse_parts_origin [OF this]
  obtain seg h c where "seg \<in> set (segments text)" "py_split1 SEP seg = Inr [h, c]"
    "p = pair_of h c"
    by auto
  with py_split1_first [of seg h c]
  show "\<exists>seg \<in> set (segments text). \<exists>header body.
          seg = header @ SEP @ body \<and> (\<forall>i<length header. \<not> prefix SEP (drop i seg))
          \<and> p = pair_of header body"
    by blast
qed

lemmas parser_eval =
  parse_files_def py_split_def py_split1_def FILE_MARK_def SEP_def
  END_MARK_def str_def py_strip_def py_replace_def py_isspace_def py_find_def segments_def
  pair_of_def

lemma dir_save:
  "save_file dir_env (JStr name) filename body
     = (if filename = [] then Some IsADirectoryError else None)"
  by (simp add: save_file_def dir_env_def dir_store_def)

lemma sample_save: "save_file sample_env (JStr name) filename body = None"
  by (simp add: save_file_def sample_env_def offline_env_def)

theorem parse_files_raises_only_in_store_witness:
  "parse_files (save_file dir_env (JStr (str ''Todo App''))) (str ''===FILE:===x'')
     = Inl IsADirectoryError
   \<and> segments (str ''===FILE:===x'') = [str ''===x'']
   \<and> py_split1 SEP (str ''===x'') = Inr [[], str ''x'']
   \<and> save_file dir_env (JStr (str ''Todo App''))
        (fst (pair_of [] (str ''x''))) (snd (pair_of [] (str ''x''))) = Some IsADirectoryError
   \<and> parse_files (save_file sample_env (JStr (str ''Todo App''))) (str ''===FILE:===x'')
       = Inr [([], str ''x'')]
   \<and> py_find FILE_MARK (str ''x===FILE: a===b===FILE: c'') = int 1
   \<and> parse_files (save_file dir_env (JStr (str ''Todo App''))) (str ''x===FILE: a===b===FILE: c'')
       = parse_files (save_file dir_env (JStr (str ''Todo App'')))
           (drop 1 (str ''x===FILE: a===b===FILE: c''))
   \<and> parse_files (save_file dir_env (JStr (str ''Todo App''))) (str ''x===FILE: a===b===FILE: c'')
       = Inr [(str ''a'', str ''b'')]
   \<and> segments (str ''x===FILE: a===b===FILE: c'') = [str '' a===b'', str '' c'']
   \<and> \<not> py_in SEP (str '' c'')
   \<and> str '' a===b'' = str '' a'' @ SEP @ str ''b''
   \<and> pair_of (str '' a'') (str ''b'') = (str ''a'', str ''b'')
   \<and> segments (str ''===FILE: c'') = [str '' c'']
   \<and> parse_files (save_file dir_env (JStr (str ''Todo App''))) (str ''===FILE: c'') = Inr []"
proof -
  let ?S = "save_file dir_env (JStr (str ''Todo App''))"
  let ?A = "save_file sample_env (JStr (str ''Todo App''))"
  let ?t = "str ''x===FILE: a===b===FILE: c''"
  have r: "parse_files ?S (str ''===FILE:===x'') = Inl IsADirectoryError"
    by (simp add: parser_eval dir_save)
  with parse_files_raises_only_in_store [of ?S "str ''===FILE:===x''" 0]
  have x: "\<exists>seg \<in> set (segments (str ''===FILE:===x'')). \<exists>header body.
         py_in SEP seg \<and> py_split1 SEP seg = Inr [header, body]
         \<and> ?S (fst (pair_of header body)) (snd (pair_of header body)) = Some IsADirectoryError"
    by blast
  have g: "segments (str ''===FILE:===x'') = [str ''===x'']"
    "py_split1 SEP (str ''===x'') = Inr [[], str ''x'']"
    by (simp_all add: parser_eval)
  from x g have v: "?S (fst (pair_of [] (str ''x''))) (snd (pair_of [] (str ''x'')))
                      = Some IsADirectoryError"
    by simp
  have "\<forall>filename body. ?A filename body = None"
    by (simp add: sample_save)
  with parse_files_raises_only_in_store [of ?A "str ''===FILE:===x''" 0]
  have "\<exists>files. parse_files ?A (str ''===FILE:===x'') = Inr files"
    by blast
  then have a: "parse_files ?A (str ''===FILE:===x'') = Inr [([], str ''x'')]"
    by (simp add: parser_eval sample_save)
  have f: "py_find FILE_MARK ?t = int 1"
    by (simp add: parser_eval)
  with parse_files_raises_only_in_store [of ?S ?t 1]
  have d: "parse_files ?S ?t = parse_files ?S (drop 1 ?t)"
    by blast
  have s: "segments (str ''===FILE: c'') = [str '' c'']" and n: "\<not> py_in SEP (str '' c'')"
    by (simp_all add: parser_eval)
  with parse_files_raises_only_in_store [of ?S "str ''===FILE: c''" 0]
  have e: "parse_files ?S (str ''===FILE: c'') = Inr []"
    by simp
  show ?thesis
    using r g v a f d s n e by (simp add: parser_eval dir_save)
qed

text \<open>
  The claim as stated fails twice.  On a start marker followed at once by the separator
  the file name is empty, \<open>save_file\<close> opens the project directory for writing, and the
  loop raises.  On a start marker whose path is not closed by \<open>===\<close>, followed by content
  and an end marker, the segment is not skipped: it is cut at the \<open>===\<close> of the end
  marker, and the mapping pairs the path line and the content with the rest of that
  marker.
\<close>

theorem parse_files_counterexample:
  "parse_files (save_file dir_env (JStr (str ''Todo App''))) (str ''===FILE:===x'')
     = Inl IsADirectoryError
   \<and> parse_files (save_file dir_env (JStr (str ''Todo App'')))
        (str ''===FILE: a.js'' @ [10] @ str ''const x = 1;'' @ [10] @ str ''===END FILE==='')
     = Inr [(str ''a.js'' @ [10] @ str ''const x = 1;'', str ''END FILE==='')]"
  by (simp add: parser_eval dir_save)

section \<open>Properties of the manager chat\<close>

lemma py_in_sublist: "py_in sub s \<longleftrightarrow> sublist sub s"
  by (induction s) (auto simp: sublist_Cons_right)

lemma py_in_iff: "py_in sub s \<longleftrightarrow> (\<exists>before after. s = before @ sub @ after)"
  by (simp add: py_in_sublist sublist_def)

lemma looks_good_keyword: "str ''looks good'' \<in> set approval_keywords"
  by (simp add: approval_keywords_def)

lemma is_approvedI:
  "keyword \<in> set approval_keywords \<Longrightarrow> py_in keyword (lower env user_message)
     \<Longrightarrow> is_approved env user_message"
  by (auto simp: is_approved_def list_ex_iff)

lemma manager_agent_approved:
  "is_approved env user_message \<Longrightarrow>
     manager_agent env user_message history =
       (approval_response (content (call_claude env PM_SUMMARY)),
        history @ [(str ''user'', user_message),
                   (str ''assistant'', approval_response (content (call_claude env PM_SUMMARY)))],
        True)"
  by (simp add: manager_agent_def Let_def)

lemma chat_with_manager_history:
  "self_conversation_history (snd (chat_with_manager env self user_message history)) =
     self_conversation_history self
       @ [(str ''user'', user_message),
          (str ''assistant'', fst (fst (chat_with_manager env self user_message history)))]"
  by (simp add: chat_with_manager_def manager_agent_def Let_def)

lemma chat_with_manager_approved:
  "is_approved env user_message \<Longrightarrow>
     chat_with_manager env self user_message history =
       ((approval_response (content (call_claude env PM_SUMMARY)),
         history @ [(user_message, approval_response (content (call_claude env PM_SUMMARY)))],
         str ''approved''),
        self\<lparr>self_conversation_history :=
               self_conversation_history self
                 @ [(str ''user'', user_message),
                    (str ''assistant'', approval_response (content (call_claude env PM_SUMMARY)))],
             self_requirements := Some (approval_response (content (call_claude env PM_SUMMARY)))\<rparr>)"
  by (simp add: chat_with_manager_def manager_agent_approved)

text \<open>
  Claim C3.  When the lowercased message contains \<open>looks good\<close>, \<open>manager_agent\<close> returns
  approval, \<open>chat_with_manager\<close> answers \<open>approved\<close> and stores the reply as the
  requirements, which are therefore set.  In every call, approved or not, the conversation
  grows by exactly two entries: the user's message, then the assistant's reply that the
  call returns.
\<close>

theorem submit_looks_good:
  "(py_in (str ''looks good'') (lower env user_message) \<longrightarrow>
      snd (snd (manager_agent env user_message (self_conversation_history self))) = True
      \<and> snd (snd (fst (chat_with_manager env self user_message history))) = str ''approved''
      \<and> self_requirements (snd (chat_with_manager env self user_message history))
          = Some (fst (fst (chat_with_manager env self user_message history))))
   \<and> length (self_conversation_history (snd (chat_with_manager env self user_message history)))
       = length (self_conversation_history self) + 2
   \<and> self_conversation_history (snd (chat_with_manager env self user_message history))
       = self_conversation_history self
           @ [(str ''user'', user_message),
              (str ''assistant'', fst (fst (chat_with_manager env self user_message history)))]"
proof (intro conjI impI)
  assume "py_in (str ''looks good'') (lower env user_message)"
  then have a: "is_approved env user_message"
    by (rule is_approvedI [OF looks_good_keyword])
  show "snd (snd (manager_agent env user_message (self_conversation_history self))) = True"
    by (simp add: manager_agent_approved [OF a])
  show "snd (snd (fst (chat_with_manager env self user_message history))) = str ''approved''"
    by (simp add: chat_with_manager_approved [OF a])
  show "self_requirements (snd (chat_with_manager env self user_message history))
          = Some (fst (fst (chat_with_manager env self user_message history)))"
    by (simp add: chat_with_manager_approved [OF a])
next
  show "length (self_conversation_history (snd (chat_with_manager env self user_message history)))
       = length (self_conversation_history self) + 2"
    by (simp add: chat_with_manager_history)
next
  show "self_conversation_history (snd (chat_with_manager env self user_message history))
       = self_conversation_history self
           @ [(str ''user'', user_message),
              (str ''assistant'', fst (fst (chat_with_manager env self user_message history)))]"
    by (rule chat_with_manager_history)
qed

lemma offline_summary: "content (call_claude offline_env PM_SUMMARY) = str ''Error: offline''"
  by (simp add: offline_env_def)

lemma lower_looks_good:
  "lower offline_env (str ''Looks GOOD to me'') = str ''looks good to me''"
  by (simp add: offline_env_def ascii_lower_def str_def)

theorem submit_looks_good_witness:
  "py_in (str ''looks good'') (lower offline_env (str ''Looks GOOD to me''))
   \<and> snd (snd (fst (chat_with_manager offline_env new_system (str ''Looks GOOD to me'') [])))
       = str ''approved''
   \<and> self_requirements (snd (chat_with_manager offline_env new_system (str ''Looks GOOD to me'') []))
       = Some (approval_response (str ''Error: offline''))
   \<and> self_conversation_history
         (snd (chat_with_manager offline_env new_system (str ''Looks GOOD to me'') []))
       = [(str ''user'', str ''Looks GOOD to me''),
          (str ''assistant'', approval_response (str ''Error: offline''))]"
proof -
  have a: "py_in (str ''looks good'') (lower offline_env (str ''Looks GOOD to me''))"
    unfolding lower_looks_good by (simp add: str_def)
  have r: "fst (fst (chat_with_manager offline_env new_system (str ''Looks GOOD to me'') []))
             = approval_response (str ''Error: offline'')"
    using a by (simp add: chat_with_manager_approved is_approvedI [OF looks_good_keyword]
                  offline_summary)
  have n: "self_conversation_history new_system = []"
    by (simp add: new_system_def)
  from submit_looks_good [of offline_env "str ''Looks GOOD to me''" new_system "[]"] a r n
  show ?thesis by simp
qed

lemma manager_agent_continue:
  "\<not> is_approved env user_message \<Longrightarrow>
     manager_agent env user_message history =
       (content (call_claude env PM_GATHER),
        history @ [(str ''user'', user_message),
                   (str ''assistant'', content (call_claude env PM_GATHER))],
        False)"
  by (simp add: manager_agent_def Let_def)

lemma is_approved_iff:
  "is_approved env user_message \<longleftrightarrow>
     (\<exists>keyword \<in> set approval_keywords. \<exists>before after.
        lower env user_message = before @ keyword @ after)"
  by (simp add: is_approved_def list_ex_iff py_in_iff)

lemma approved_not_continue: "str ''continue'' \<noteq> str ''approved''"
  by (simp add: str_def)

text \<open>
  Claim C10.  The approval test is the substring test on the lowercased message, in both
  directions: \<open>manager_agent\<close> returns approval, and \<open>chat_with_manager\<close> answers
  \<open>approved\<close>, exactly when the lowercase form of the message is some text, one of the
  eight fixed phrases, and some text again, wherever the phrase falls.  Such a message
  makes \<open>manager_agent\<close> build the requirements reply and \<open>chat_with_manager\<close> store it;
  any other message gets the continuing reply and leaves the requirements as they were.
\<close>

theorem approval_is_substring_match:
  "(snd (snd (manager_agent env user_message history)) \<longleftrightarrow>
      (\<exists>keyword \<in> set approval_keywords. \<exists>before after.
         lower env user_message = before @ keyword @ after))
   \<and> (snd (snd (fst (chat_with_manager env self user_message shown))) = str ''approved'' \<longleftrightarrow>
      (\<exists>keyword \<in> set approval_keywords. \<exists>before after.
         lower env user_message = before @ keyword @ after))
   \<and> ((\<exists>keyword \<in> set approval_keywords. \<exists>before after.
         lower env user_message = before @ keyword @ after) \<longrightarrow>
        manager_agent env user_message history =
          (approval_response (content (call_claude env PM_SUMMARY)),
           history @ [(str ''user'', user_message),
                      (str ''assistant'',
                       approval_response (content (call_claude env PM_SUMMARY)))],
           True)
        \<and> self_requirements (snd (chat_with_manager env self user_message shown))
            = Some (approval_response (content (call_claude env PM_SUMMARY))))
   \<and> (\<not> (\<exists>keyword \<in> set approval_keywords. \<exists>before after.
         lower env user_message = before @ keyword @ after) \<longrightarrow>
        manager_agent env user_message history =
          (content (call_claude env PM_GATHER),
           history @ [(str ''user'', user_message),
                      (str ''assistant'', content (call_claude env PM_GATHER))],
           False)
        \<and> self_requirements (snd (chat_with_manager env self user_message shown))
            = self_requirements self)"
proof (cases "is_approved env user_message")
  case True
  then have "\<exists>keyword \<in> set approval_keywords. \<exists>before after.
         lower env user_message = before @ keyword @ after"
    by (simp add: is_approved_iff)
  with True show ?thesis
    by (simp add: manager_agent_approved chat_with_manager_approved)
next
  case False
  then have "\<not> (\<exists>keyword \<in> set approval_keywords. \<exists>before after.
         lower env user_message = before @ keyword @ after)"
    by (simp add: is_approved_iff)
  with False show ?thesis
    by (simp add: manager_agent_continue chat_with_manager_def approved_not_continue)
qed

theorem approval_is_substring_match_witness:
  "lower offline_env (str ''That is incorrect'') = str ''that is in'' @ str ''correct'' @ []
   \<and> str ''correct'' \<in> set approval_keywords
   \<and> snd (snd (manager_agent offline_env (str ''That is incorrect'') []))
   \<and> manager_agent offline_env (str ''That is incorrect'') [] =
       (approval_response (str ''Error: offline''),
        [(str ''user'', str ''That is incorrect''),
         (str ''assistant'', approval_response (str ''Error: offline''))],
        True)
   \<and> self_requirements (snd (chat_with_manager offline_env new_system (str ''That is incorrect'') []))
       = Some (approval_response (str ''Error: offline''))
   \<and> \<not> is_approved offline_env (str ''Add a dark mode'')
   \<and> \<not> snd (snd (manager_agent offline_env (str ''Add a dark mode'') []))
   \<and> manager_agent offline_env (str ''Add a dark mode'') [] =
       (str ''Error: offline'',
        [(str ''user'', str ''Add a dark mode''), (str ''assistant'', str ''Error: offline'')],
        False)
   \<and> self_requirements (snd (chat_with_manager offline_env new_system (str ''Add a dark mode'') []))
       = None"
proof -
  have l: "lower offline_env (str ''That is incorrect'') = str ''that is in'' @ str ''correct'' @ []"
    by (simp add: offline_env_def ascii_lower_def str_def)
  have k: "str ''correct'' \<in> set approval_keywords"
    by (simp add: approval_keywords_def)
  from l k have p: "\<exists>keyword \<in> set approval_keywords. \<exists>before after.
      lower offline_env (str ''That is incorrect'') = before @ keyword @ after"
    by blast
  have c: "content (call_claude offline_env PM_GATHER) = str ''Error: offline''"
    by (simp add: offline_env_def)
  have m: "\<not> is_approved offline_env (str ''Add a dark mode'')"
    by (simp add: is_approved_def approval_keywords_def offline_env_def ascii_lower_def str_def)
  then have q: "\<not> (\<exists>keyword \<in> set approval_keywords. \<exists>before after.
      lower offline_env (str ''Add a dark mode'') = before @ keyword @ after)"
    by (simp add: is_approved_iff)
  have s: "self_requirements new_system = None"
    by (simp add: new_system_def)
  from approval_is_substring_match
         [of offline_env "str ''That is incorrect''" "[]" new_system "[]"] p
  have a: "snd (snd (manager_agent offline_env (str ''That is incorrect'') []))
        \<and> manager_agent offline_env (str ''That is incorrect'') [] =
            (approval_response (content (call_claude offline_env PM_SUMMARY)),
             [] @ [(str ''user'', str ''That is incorrect''),
                   (str ''assistant'',
                    approval_response (content (call_claude offline_env PM_SUMMARY)))],
             True)
        \<and> self_requirements
             (snd (chat_with_manager offline_env new_system (str ''That is incorrect'') []))
            = Some (approval_response (content (call_claude offline_env PM_SUMMARY)))"
    by blast
  from approval_is_substring_match
         [of offline_env "str ''Add a dark mode''" "[]" new_system "[]"] q
  have b: "\<not> snd (snd (manager_agent offline_env (str ''Add a dark mode'') []))
        \<and> manager_agent offline_env (str ''Add a dark mode'') [] =
            (content (call_claude offline_env PM_GATHER),
             [] @ [(str ''user'', str ''Add a dark mode''),
                   (str ''assistant'', content (call_claude offline_env PM_GATHER))],
             False)
        \<and> self_requirements
             (snd (chat_with_manager offline_env new_system (str ''Add a dark mode'') []))
            = self_requirements new_system"
    by blast
  from l k m a b show ?thesis
    by (simp add: offline_summary c s)
qed

section \<open>Properties of the test runners\<close>

text \<open>
  What the aggregator returns when the two subprocess calls return: the counts of the
  parsed report, or the counts of the two literals in both streams.
\<close>

lemma unit_summary_cases:
  "(json_loads env stdout = Some (JObj data) \<longrightarrow>
      run_unit_tests env (Inr installed) (Inr (stdout, stderr)) =
        [(str ''success'', JBool True),
         (str ''total'', dict_get data (str ''numTotalTests'') (JNum 0)),
         (str ''passed'', dict_get data (str ''numPassedTests'') (JNum 0)),
         (str ''failed'', dict_get data (str ''numFailedTests'') (JNum 0)),
         (str ''details'', dict_get data (str ''testResults'') (JArr []))])
   \<and> (json_loads env stdout = None \<longrightarrow>
      run_unit_tests env (Inr installed) (Inr (stdout, stderr)) =
        [(str ''success'', JBool True),
         (str ''total'', JNum (int (py_count PASS_GLYPH (stdout @ stderr))
                               + int (py_count FAIL_GLYPH (stdout @ stderr)))),
         (str ''passed'', JNum (int (py_count PASS_GLYPH (stdout @ stderr)))),
         (str ''failed'', JNum (int (py_count FAIL_GLYPH (stdout @ stderr)))),
         (str ''details'', JArr [])])"
  by (simp add: run_unit_tests_def unit_report_def unit_fallback_def)

lemma sample_report_summary:
  "run_unit_tests report_env (Inr ([], [])) (Inr (sample_report_text, [])) =
     [(str ''success'', JBool True), (str ''total'', JNum 5), (str ''passed'', JNum 3),
      (str ''failed'', JNum 2), (str ''details'', JArr [])]"
  by (simp add: run_unit_tests_def unit_report_def report_env_def sample_report_def
        dict_get_def str_def)

text \<open>
  Claim C8.  The report half of the claim holds, the fallback half does not.  The two
  literals the fallback counts are not the glyphs: each is the three characters that the
  bytes of the glyph give in a one-byte encoding.  On an output that does not parse and
  holds three check marks and one ballot X, the runner's two calls having returned,
  \<open>run_unit_tests\<close> finds neither literal and returns total 0, passed 0 and failed 0,
  where the claim has 4, 3 and 1.
\<close>

theorem glyph_fallback_counts_nothing:
  "json_loads offline_env
     (CHECK_MARK @ str '' renders'' @ [10] @ CHECK_MARK @ str '' adds a todo'' @ [10]
        @ BALLOT_X @ str '' removes a todo'' @ [10] @ CHECK_MARK @ str '' filters'' @ [10]) = None
   \<and> run_unit_tests offline_env (Inr ([], []))
       (Inr (CHECK_MARK @ str '' renders'' @ [10] @ CHECK_MARK @ str '' adds a todo'' @ [10]
               @ BALLOT_X @ str '' removes a todo'' @ [10] @ CHECK_MARK @ str '' filters'' @ [10],
             [])) =
       [(str ''success'', JBool True), (str ''total'', JNum 0), (str ''passed'', JNum 0),
        (str ''failed'', JNum 0), (str ''details'', JArr [])]"
  by (simp add: run_unit_tests_def unit_report_def unit_fallback_def offline_env_def
        py_count_def PASS_GLYPH_def FAIL_GLYPH_def CHECK_MARK_def BALLOT_X_def str_def)

text \<open>
  Claim C9.  The dev server is not terminated on every path.  When the dependency
  installation returns, the server is spawned and the test run then raises (its timeout
  of 120 seconds, or a missing program), \<open>run_e2e_tests\<close> returns the failure dictionary
  with the server still running: the handler does not call \<open>terminate\<close>.
\<close>

theorem dev_server_left_running:
  "run_e2e_tests env (Inr installed) None (Inl timeout) = (error_result timeout, Running)"
  by (simp add: run_e2e_tests_def)

section \<open>Properties of the repository operations\<close>

lemma commit_payload_sha:
  "map_of (commit_payload kwargs c sha) (str ''sha'') = (if truthy sha then Some sha else None)"
  by (simp add: commit_payload_def Let_def update_conv' str_def)

lemma read_sha_exists:
  "status_code r = 200 \<Longrightarrow> json_body r = Some (JObj d) \<Longrightarrow> map_of d (str ''sha'') = Some sha
     \<Longrightarrow> read_sha r = Inr sha"
  by (simp add: read_sha_def dict_get_def)

lemma read_sha_absent: "status_code r \<noteq> 200 \<Longrightarrow> read_sha r = Inr JNull"
  by (simp add: read_sha_def)

lemma commit_file_shape:
  "commit_file env log token repo_info kwargs = (result, log') \<Longrightarrow>
     log' = log
     \<or> (\<exists>u. log' = log @ [Request GET u token None])
     \<or> (\<exists>u r sha c. log' = log @ [Request GET u token None,
                                   Request PUT u token (Some (commit_payload kwargs c sha))]
           \<and> http env log (Request GET u token None) = Inr r \<and> read_sha r = Inr sha)"
  unfolding commit_file_def Let_def
  by (auto split: sum.splits)

lemma commit_file_writes:
  assumes "map_of repo_info (str ''owner'') = Some owner"
    and "map_of repo_info (str ''name'') = Some repo"
    and "map_of kwargs (str ''path'') = Some path"
    and "map_of kwargs (str ''content'') = Some (JStr body)"
    and "\<forall>c \<in> set body. \<not> (55296 \<le> c \<and> c \<le> 57343)"
    and "http env log (Request GET (contents_url env owner repo path) token None) = Inr r"
    and "read_sha r = Inr sha"
  shows "snd (commit_file env log token repo_info kwargs) =
           log @ [Request GET (contents_url env owner repo path) token None,
                  Request PUT (contents_url env owner repo path) token
                    (Some (commit_payload kwargs (b64encode env body) sha))]"
  using assms
  by (auto simp: commit_file_def Let_def dict_item_def encode_b64_def split: sum.splits)

text \<open>
  Claim C6.  A \<open>commit_file\<close> call sends nothing, or only the read of the file's
  metadata, or that read followed by the write to the same URL: no write comes without
  the read before it.  In the write, the payload has the \<open>sha\<close> of the read when the read
  answered 200 with a non-empty \<open>sha\<close> (the file exists), and no \<open>sha\<close> key when the read
  answered anything else (the file does not exist).  With a token, a repository that has
  \<open>owner\<close> and \<open>name\<close>, a path and an encodable content, and a read that returns, the
  write is sent.
\<close>

theorem upsert_reads_before_write:
  "(github_operation env log (str ''commit_file'') repo_info kwargs = (result, log') \<longrightarrow>
      log' = log
      \<or> (\<exists>u t. log' = log @ [Request GET u t None])
      \<or> (\<exists>u t r p. log' = log @ [Request GET u t None, Request PUT u t (Some p)]
            \<and> http env log (Request GET u t None) = Inr r
            \<and> (\<forall>d sha. status_code r = 200 \<and> json_body r = Some (JObj d)
                   \<and> map_of d (str ''sha'') = Some sha \<and> truthy sha \<longrightarrow>
                   map_of p (str ''sha'') = Some sha)
            \<and> (status_code r \<noteq> 200 \<longrightarrow> map_of p (str ''sha'') = None)))
   \<and> (github_token env = Some token \<and> token \<noteq> []
        \<and> map_of repo_info (str ''owner'') = Some owner
        \<and> map_of repo_info (str ''name'') = Some repo
        \<and> map_of kwargs (str ''path'') = Some path
        \<and> map_of kwargs (str ''content'') = Some (JStr body)
        \<and> (\<forall>c \<in> set body. \<not> (55296 \<le> c \<and> c \<le> 57343))
        \<and> http env log (Request GET (contents_url env owner repo path) token None) = Inr r
        \<and> read_sha r = Inr sha \<longrightarrow>
        snd (github_operation env log (str ''commit_file'') repo_info kwargs) =
          log @ [Request GET (contents_url env owner repo path) token None,
                 Request PUT (contents_url env owner repo path) token
                   (Some (commit_payload kwargs (b64encode env body) sha))])"
proof (intro conjI impI)
  assume g: "github_operation env log (str ''commit_file'') repo_info kwargs = (result, log')"
  show "log' = log
      \<or> (\<exists>u t. log' = log @ [Request GET u t None])
      \<or> (\<exists>u t r p. log' = log @ [Request GET u t None, Request PUT u t (Some p)]
            \<and> http env log (Request GET u t None) = Inr r
            \<and> (\<forall>d sha. status_code r = 200 \<and> json_body r = Some (JObj d)
                   \<and> map_of d (str ''sha'') = Some sha \<and> truthy sha \<longrightarrow>
                   map_of p (str ''sha'') = Some sha)
            \<and> (status_code r \<noteq> 200 \<longrightarrow> map_of p (str ''sha'') = None))"
  proof (cases "github_token env")
    case None
    with g show ?thesis by (simp add: github_operation_def)
  next
    case (Some t)
    show ?thesis
    proof (cases "t = []")
      case True
      with Some g show ?thesis by (simp add: github_operation_def)
    next
      case False
      have ne: "str ''commit_file'' \<noteq> str ''create_repo''" by (simp add: str_def)
      from Some False g ne
      have c: "commit_file env log t repo_info kwargs = (result, log')"
        by (simp add: github_operation_def)
      from commit_file_shape [OF c] show ?thesis
      proof (elim disjE exE conjE)
        assume "log' = log"
        then show ?thesis by simp
      next
        fix u assume "log' = log @ [Request GET u t None]"
        then show ?thesis by blast
      next
        fix u r sha c
        assume l: "log' = log @ [Request GET u t None,
                      Request PUT u t (Some (commit_payload kwargs c sha))]"
          and h: "http env log (Request GET u t None) = Inr r"
          and s: "read_sha r = Inr sha"
        have e: "\<forall>d sha'. status_code r = 200 \<and> json_body r = Some (JObj d)
                   \<and> map_of d (str ''sha'') = Some sha' \<and> truthy sha' \<longrightarrow>
                   map_of (commit_payload kwargs c sha) (str ''sha'') = Some sha'"
          using s by (auto simp: read_sha_exists commit_payload_sha)
        have a: "status_code r \<noteq> 200 \<longrightarrow> map_of (commit_payload kwargs c sha) (str ''sha'') = None"
        proof
          assume n: "status_code r \<noteq> 200"
          from read_sha_absent [OF n] s have "sha = JNull" by simp
          then show "map_of (commit_payload kwargs c sha) (str ''sha'') = None"
            by (simp add: commit_payload_sha)
        qed
        from l h e a show ?thesis by blast
      qed
    qed
  qed
next
  assume a: "github_token env = Some token \<and> token \<noteq> []
        \<and> map_of repo_info (str ''owner'') = Some owner
        \<and> map_of repo_info (str ''name'') = Some repo
        \<and> map_of kwargs (str ''path'') = Some path
        \<and> map_of kwargs (str ''content'') = Some (JStr body)
        \<and> (\<forall>c \<in> set body. \<not> (55296 \<le> c \<and> c \<le> 57343))
        \<and> http env log (Request GET (contents_url env owner repo path) token None) = Inr r
        \<and> read_sha r = Inr sha"
  have ne: "str ''commit_file'' \<noteq> str ''create_repo''" by (simp add: str_def)
  from a ne have "github_operation env log (str ''commit_file'') repo_info kwargs
      = commit_file env log token repo_info kwargs"
    by (simp add: github_operation_def)
  with a show "snd (github_operation env log (str ''commit_file'') repo_info kwargs) =
          log @ [Request GET (contents_url env owner repo path) token None,
                 Request PUT (contents_url env owner repo path) token
                   (Some (commit_payload kwargs (b64encode env body) sha))]"
    by (simp add: commit_file_writes)
qed

lemma readme_url:
  "contents_url github_env (JStr (str ''octo'')) (JStr (str ''todo-app'')) (JStr (str ''README.md''))
     = str ''https://api.github.com/repos/octo/todo-app/contents/README.md''"
  by (simp add: contents_url_def py_str_def str_def)

lemma app_url:
  "contents_url github_env (JStr (str ''octo'')) (JStr (str ''todo-app'')) (JStr (str ''src/App.jsx''))
     = str ''https://api.github.com/repos/octo/todo-app/contents/src/App.jsx''"
  by (simp add: contents_url_def py_str_def str_def)

lemma github_env_fields:
  "github_token github_env = Some (str ''token'')" "http github_env = sample_github"
  "b64encode github_env = (\<lambda>s. s)"
  by (simp_all add: github_env_def offline_env_def)

lemma str_token_ne: "str ''token'' \<noteq> []" by (simp add: str_def)

lemma sample_repo_fields:
  "map_of sample_repo (str ''owner'') = Some (JStr (str ''octo''))"
  "map_of sample_repo (str ''name'') = Some (JStr (str ''todo-app''))"
  by (simp_all add: sample_repo_def str_def)

lemma get_readme:
  "sample_github log (Request GET (str ''https://api.github.com/repos/octo/todo-app/contents/README.md'') t None)
     = Inr \<lparr> status_code = 200, json_body = Some (JObj [(str ''sha'', JStr (str ''abc123''))]) \<rparr>"
  by (simp add: sample_github_def)

lemma get_app:
  "sample_github log (Request GET (str ''https://api.github.com/repos/octo/todo-app/contents/src/App.jsx'') t None)
     = Inr \<lparr> status_code = 404,
             json_body = Some (JObj [(str ''message'', JStr (str ''Not Found''))]) \<rparr>"
  by (simp add: sample_github_def str_def)

lemma no_surrogate: "\<forall>c \<in> set (str ''hello''). \<not> (55296 \<le> c \<and> c \<le> 57343)"
  by (simp add: str_def)

theorem upsert_reads_before_write_witness:
  "snd (github_operation github_env [] (str ''commit_file'') sample_repo
          [(str ''path'', JStr (str ''README.md'')), (str ''content'', JStr (str ''hello'')),
           (str ''message'', JStr (str ''docs''))]) =
     [Request GET (str ''https://api.github.com/repos/octo/todo-app/contents/README.md'')
        (str ''token'') None,
      Request PUT (str ''https://api.github.com/repos/octo/todo-app/contents/README.md'')
        (str ''token'')
        (Some [(str ''message'', JStr (str ''docs'')), (str ''content'', JStr (str ''hello'')),
               (str ''branch'', JStr (str ''main'')), (str ''sha'', JStr (str ''abc123''))])]
   \<and> snd (github_operation github_env [] (str ''commit_file'') sample_repo
          [(str ''path'', JStr (str ''src/App.jsx'')), (str ''content'', JStr (str ''hello'')),
           (str ''message'', JStr (str ''feat''))]) =
     [Request GET (str ''https://api.github.com/repos/octo/todo-app/contents/src/App.jsx'')
        (str ''token'') None,
      Request PUT (str ''https://api.github.com/repos/octo/todo-app/contents/src/App.jsx'')
        (str ''token'')
        (Some [(str ''message'', JStr (str ''feat'')), (str ''content'', JStr (str ''hello'')),
               (str ''branch'', JStr (str ''main''))])]"
proof -
  let ?k1 = "[(str ''path'', JStr (str ''README.md'')), (str ''content'', JStr (str ''hello'')),
              (str ''message'', JStr (str ''docs''))]"
  let ?k2 = "[(str ''path'', JStr (str ''src/App.jsx'')), (str ''content'', JStr (str ''hello'')),
              (str ''message'', JStr (str ''feat''))]"
  have k1: "map_of ?k1 (str ''path'') = Some (JStr (str ''README.md''))"
    "map_of ?k1 (str ''content'') = Some (JStr (str ''hello''))"
    by (simp_all add: str_def)
  have k2: "map_of ?k2 (str ''path'') = Some (JStr (str ''src/App.jsx''))"
    "map_of ?k2 (str ''content'') = Some (JStr (str ''hello''))"
    by (simp_all add: str_def)
  have s1: "read_sha \<lparr> status_code = 200,
                       json_body = Some (JObj [(str ''sha'', JStr (str ''abc123''))]) \<rparr>
              = Inr (JStr (str ''abc123''))"
    by (simp add: read_sha_def dict_get_def)
  have s2: "read_sha \<lparr> status_code = 404,
             json_body = Some (JObj [(str ''message'', JStr (str ''Not Found''))]) \<rparr> = Inr JNull"
    by (simp add: read_sha_def)
  have p1: "commit_payload ?k1 (str ''hello'') (JStr (str ''abc123'')) =
      [(str ''message'', JStr (str ''docs'')), (str ''content'', JStr (str ''hello'')),
       (str ''branch'', JStr (str ''main'')), (str ''sha'', JStr (str ''abc123''))]"
    by (simp add: commit_payload_def dict_get_def str_def)
  have p2: "commit_payload ?k2 (str ''hello'') JNull =
      [(str ''message'', JStr (str ''feat'')), (str ''content'', JStr (str ''hello'')),
       (str ''branch'', JStr (str ''main''))]"
    by (simp add: commit_payload_def dict_get_def str_def)
  have a: "snd (github_operation github_env [] (str ''commit_file'') sample_repo ?k1) =
      [] @ [Request GET (contents_url github_env (JStr (str ''octo'')) (JStr (str ''todo-app''))
                          (JStr (str ''README.md''))) (str ''token'') None,
            Request PUT (contents_url github_env (JStr (str ''octo'')) (JStr (str ''todo-app''))
                          (JStr (str ''README.md''))) (str ''token'')
              (Some (commit_payload ?k1 (b64encode github_env (str ''hello'')) (JStr (str ''abc123''))))]"
    using upsert_reads_before_write [of github_env "[]" sample_repo ?k1 _ _ "str ''token''"
            "JStr (str ''octo'')" "JStr (str ''todo-app'')" "JStr (str ''README.md'')" "str ''hello''"
            "\<lparr> status_code = 200, json_body = Some (JObj [(str ''sha'', JStr (str ''abc123''))]) \<rparr>"
            "JStr (str ''abc123'')"]
      github_env_fields str_token_ne sample_repo_fields k1 no_surrogate s1 get_readme readme_url
    by simp
  have b: "snd (github_operation github_env [] (str ''commit_file'') sample_repo ?k2) =
      [] @ [Request GET (contents_url github_env (JStr (str ''octo'')) (JStr (str ''todo-app''))
                          (JStr (str ''src/App.jsx''))) (str ''token'') None,
            Request PUT (contents_url github_env (JStr (str ''octo'')) (JStr (str ''todo-app''))
                          (JStr (str ''src/App.jsx''))) (str ''token'')
              (Some (commit_payload ?k2 (b64encode github_env (str ''hello'')) JNull))]"
    using upsert_reads_before_write [of github_env "[]" sample_repo ?k2 _ _ "str ''token''"
            "JStr (str ''octo'')" "JStr (str ''todo-app'')" "JStr (str ''src/App.jsx'')" "str ''hello''"
            "\<lparr> status_code = 404,
               json_body = Some (JObj [(str ''message'', JStr (str ''Not Found''))]) \<rparr>"
            "JNull"]
      github_env_fields str_token_ne sample_repo_fields k2 no_surrogate s2 get_app app_url
    by simp
  from a b show ?thesis
    by (simp add: readme_url app_url p1 p2 github_env_fields)
qed

section \<open>Properties of the stages and of the workflow\<close>

lemma github_agent_node_no_plan:
  "development_plan st = None \<Longrightarrow> github_agent_node env log st = (Inl AttributeError, log)"
  by (simp add: github_agent_node_def repo_project_name_def)

lemma github_agent_node_stage:
  "github_agent_node env log st = (Inr st', log') \<Longrightarrow>
     current_stage st' = current_stage st \<and> errors st' = errors st"
  unfolding github_agent_node_def Let_def
  by (auto split: sum.splits option.splits prod.splits if_splits)

lemma planner_node_stage:
  "\<exists>st'. planner_node env st = Inr st' \<and> current_stage st' = str ''planning_complete''"
  by (simp add: planner_node_def Let_def)

lemma developer_node_stage:
  "developer_node env st = Inr st' \<Longrightarrow>
     current_stage st' = str ''code_written'' \<and> errors st' = errors st"
  unfolding developer_node_def Let_def
  by (auto split: sum.splits option.splits prod.splits if_splits)

lemma tester_node_stage:
  "tester_node env st = Inr st' \<Longrightarrow>
     current_stage st' = str ''tests_written'' \<and> errors st' = errors st"
  unfolding tester_node_def Let_def
  by (auto split: sum.splits option.splits prod.splits if_splits)

lemma deployer_node_stage:
  "deployer_node env log st = (Inr st', log') \<Longrightarrow>
     current_stage st' = str ''deployment_complete''"
  unfolding deployer_node_def Let_def
  by (auto split: sum.splits option.splits prod.splits if_splits)

lemma run_from_END: "run_from fuel env END log st = ([], Finished, log)"
  by (cases fuel) simp_all

lemmas graph_eval = workflow_nodes_def workflow_edges_def END_def str_def

lemma step_github_init:
  "run_from (Suc fuel) env (str ''github_init'') log st =
     (case github_agent_node env log st of
        (Inl e, log') \<Rightarrow> ([], Node_raised e, log')
      | (Inr st', log') \<Rightarrow>
          (let (trace, out, log'') = run_from fuel env (str ''planner'') log' st'
           in ((str ''github_init'', st') # trace, out, log'')))"
  by (simp add: graph_eval split: prod.splits sum.splits)

lemma step_planner:
  "run_from (Suc fuel) env (str ''planner'') log st =
     (case planner_node env st of
        Inl e \<Rightarrow> ([], Node_raised e, log)
      | Inr st' \<Rightarrow>
          (let (trace, out, log'') = run_from fuel env (str ''developer'') log st'
           in ((str ''planner'', st') # trace, out, log'')))"
  by (simp add: graph_eval pure_node_def split: prod.splits sum.splits)

lemma step_developer:
  "run_from (Suc fuel) env (str ''developer'') log st =
     (case developer_node env st of
        Inl e \<Rightarrow> ([], Node_raised e, log)
      | Inr st' \<Rightarrow>
          (let (trace, out, log'') = run_from fuel env (str ''github_commit_code'') log st'
           in ((str ''developer'', st') # trace, out, log'')))"
  by (simp add: graph_eval pure_node_def split: prod.splits sum.splits)

lemma step_github_commit_code:
  "run_from (Suc fuel) env (str ''github_commit_code'') log st =
     (case github_agent_node env log st of
        (Inl e, log') \<Rightarrow> ([], Node_raised e, log')
      | (Inr st', log') \<Rightarrow>
          (let (trace, out, log'') = run_from fuel env (str ''tester'') log' st'
           in ((str ''github_commit_code'', st') # trace, out, log'')))"
  by (simp add: graph_eval split: prod.splits sum.splits)

lemma step_tester:
  "run_from (Suc fuel) env (str ''tester'') log st =
     (case tester_node env st of
        Inl e \<Rightarrow> ([], Node_raised e, log)
      | Inr st' \<Rightarrow>
          (let (trace, out, log'') = run_from fuel env (str ''github_commit_tests'') log st'
           in ((str ''tester'', st') # trace, out, log'')))"
  by (simp add: graph_eval pure_node_def split: prod.splits sum.splits)

lemma step_github_commit_tests:
  "run_from (Suc fuel) env (str ''github_commit_tests'') log st =
     (case github_agent_node env log st of
        (Inl e, log') \<Rightarrow> ([], Node_raised e, log')
      | (Inr st', log') \<Rightarrow>
          (let (trace, out, log'') = run_from fuel env (str ''deployer'') log' st'
           in ((str ''github_commit_tests'', st') # trace, out, log'')))"
  by (simp add: graph_eval split: prod.splits sum.splits)

lemma step_deployer:
  "run_from (Suc fuel) env (str ''deployer'') log st =
     (case deployer_node env log st of
        (Inl e, log') \<Rightarrow> ([], Node_raised e, log')
      | (Inr st', log') \<Rightarrow>
          (let (trace, out, log'') = run_from fuel env (str ''github_commit_deploy'') log' st'
           in ((str ''deployer'', st') # trace, out, log'')))"
  by (simp add: graph_eval split: prod.splits sum.splits)

lemma step_github_commit_deploy:
  "run_from (Suc fuel) env (str ''github_commit_deploy'') log st =
     (case github_agent_node env log st of
        (Inl e, log') \<Rightarrow> ([], Node_raised e, log')
      | (Inr st', log') \<Rightarrow>
          (let (trace, out, log'') = run_from fuel env END log' st'
           in ((str ''github_commit_deploy'', st') # trace, out, log'')))"
  by (simp add: graph_eval split: prod.splits sum.splits)


lemmas run_steps = step_github_init step_planner step_developer step_github_commit_code
  step_tester step_github_commit_tests step_deployer step_github_commit_deploy run_from_END

lemma recursion_limit_Suc:
  "recursion_limit = Suc (Suc (Suc (Suc (Suc (Suc (Suc (Suc 17)))))))"
  by (simp add: recursion_limit_def)

lemma run_workflow_finished:
  assumes "run_workflow env st = (trace, Finished, lg)"
  shows "\<exists>s1 l1 s2 s3 s4 l4 s5 s6 l6 s7 l7 s8.
           github_agent_node env [] st = (Inr s1, l1) \<and> planner_node env s1 = Inr s2
           \<and> developer_node env s2 = Inr s3 \<and> github_agent_node env l1 s3 = (Inr s4, l4)
           \<and> tester_node env s4 = Inr s5 \<and> github_agent_node env l4 s5 = (Inr s6, l6)
           \<and> deployer_node env l6 s6 = (Inr s7, l7)
           \<and> github_agent_node env l7 s7 = (Inr s8, lg)
           \<and> trace = [(str ''github_init'', s1), (str ''planner'', s2), (str ''developer'', s3),
                       (str ''github_commit_code'', s4), (str ''tester'', s5),
                       (str ''github_commit_tests'', s6), (str ''deployer'', s7),
                       (str ''github_commit_deploy'', s8)]"
  using assms
  unfolding run_workflow_def entry_point_def recursion_limit_Suc run_steps
  by (auto split: prod.splits sum.splits)


lemma planner_node_stage':
  "planner_node env st = Inr st' \<Longrightarrow> current_stage st' = str ''planning_complete''"
  by (auto simp: planner_node_def Let_def)

lemma run_workflow_shape:
  assumes "run_workflow env st = (trace, out, lg)"
  shows "map fst trace = take (length trace) node_chain
     \<and> stage_trace trace =
         take (length trace)
           [current_stage st, str ''planning_complete'', str ''code_written'',
            str ''code_written'', str ''tests_written'', str ''tests_written'',
            str ''deployment_complete'', str ''deployment_complete'']
     \<and> (out = Finished \<and> length trace = 8 \<or> (\<exists>e. out = Node_raised e \<and> length trace < 8))"
  using assms
  unfolding run_workflow_def entry_point_def recursion_limit_Suc run_steps node_chain_def
    stage_trace_def
  by (auto split: prod.splits sum.splits
        dest!: github_agent_node_stage planner_node_stage' developer_node_stage
               tester_node_stage deployer_node_stage)

text \<open>The repository stage when no repository can be created, and once it is local only.\<close>

lemma github_agent_node_local_only:
  "repo_project_name env st = Inr pn \<Longrightarrow> github_repo st = Some repo \<Longrightarrow> repo \<noteq> [] \<Longrightarrow>
     map_of repo (str ''url'') = Some (JStr LOCAL_ONLY) \<Longrightarrow>
     github_agent_node env log st = (Inr st, log)"
  by (simp add: github_agent_node_def dict_item_def)

lemma failure_success: "map_of (failure msg) (str ''success'') = Some (JBool False)"
  by (simp add: failure_def str_def)

lemma github_agent_node_sentinel:
  assumes "repo_project_name env st = Inr pn"
    and "github_repo st = None \<or> github_repo st = Some []"
    and "github_operation env log (str ''create_repo'') []
           [(str ''name'', JStr pn), (str ''description'', JStr (take 100 (requirements st)))]
         = (result, log')"
    and "map_of result (str ''success'') = Some (JBool False)"
  shows "github_agent_node env log st =
           (Inr (st\<lparr>github_repo := Some [(str ''name'', JStr pn), (str ''url'', JStr LOCAL_ONLY)]\<rparr>),
            log')"
  using assms by (auto simp: github_agent_node_def dict_item_def)

lemma github_operation_no_token:
  "github_token env = None \<or> github_token env = Some [] \<Longrightarrow>
     github_operation env log operation repo_info kwargs = (failure (str ''No GitHub token''), log)"
  by (auto simp: github_operation_def)

lemma sample_env_fields:
  "github_token sample_env = None" "vercel_token sample_env = None"
  "lower sample_env = ascii_lower"
  "fs_write sample_env = (\<lambda>project filename body. None)"
  by (simp_all add: sample_env_def offline_env_def)

lemma sample_project_name:
  "development_plan st = Some sample_plan \<Longrightarrow> repo_project_name sample_env st = Inr (str ''todo-app'')"
  by (simp add: repo_project_name_def sample_plan_def dict_get_def sample_env_fields
        ascii_lower_def py_replace_def str_def)

lemma plans:
  "development_plan planned_state = Some sample_plan"
  "development_plan after_github_init = Some sample_plan"
  "development_plan after_planner = Some sample_plan"
  "development_plan after_developer = Some sample_plan"
  "development_plan after_tester = Some sample_plan"
  "development_plan after_deployer = Some sample_plan"
  by (simp_all add: planned_state_def after_github_init_def after_planner_def
        after_developer_def after_tester_def after_deployer_def)

lemma repos:
  "github_repo planned_state = None"
  "github_repo after_developer = Some [(str ''name'', JStr (str ''todo-app'')), (str ''url'', JStr LOCAL_ONLY)]"
  "github_repo after_tester = Some [(str ''name'', JStr (str ''todo-app'')), (str ''url'', JStr LOCAL_ONLY)]"
  "github_repo after_deployer = Some [(str ''name'', JStr (str ''todo-app'')), (str ''url'', JStr LOCAL_ONLY)]"
  by (simp_all add: planned_state_def start_state_def initial_state_def after_github_init_def
        after_planner_def after_developer_def after_tester_def after_deployer_def)

lemma local_url:
  "map_of [(str ''name'', JStr (str ''todo-app'')), (str ''url'', JStr LOCAL_ONLY)] (str ''url'')
     = Some (JStr LOCAL_ONLY)"
  by (simp add: str_def)

lemma sample_github_init:
  "github_agent_node sample_env [] planned_state = (Inr after_github_init, [])"
  using github_agent_node_sentinel [OF sample_project_name [OF plans(1)] _
          github_operation_no_token failure_success, of "[]"]
  by (simp add: repos sample_env_fields after_github_init_def)

lemma sample_commit_code:
  "github_agent_node sample_env [] after_developer = (Inr after_developer, [])"
  by (rule github_agent_node_local_only [OF sample_project_name [OF plans(4)] repos(2) _ local_url])
     simp

lemma sample_commit_tests:
  "github_agent_node sample_env [] after_tester = (Inr after_tester, [])"
  by (rule github_agent_node_local_only [OF sample_project_name [OF plans(5)] repos(3) _ local_url])
     simp

lemma sample_commit_deploy:
  "github_agent_node sample_env [] after_deployer = (Inr after_deployer, [])"
  by (rule github_agent_node_local_only [OF sample_project_name [OF plans(6)] repos(4) _ local_url])
     simp

lemma sample_slice:
  "py_slice sample_plan_text (py_find (str ''{'') sample_plan_text)
      (py_rfind (str ''}'') sample_plan_text + 1) = str ''{\"project_name\": \"Todo App\"}''"
  by (simp add: sample_plan_text_def py_slice_def py_find_def py_rfind_def py_index_def str_def
        Let_def)


lemma sample_calls:
  "call_claude sample_env ARCHITECT
     = \<lparr> content = sample_plan_text, success = True, error = None \<rparr>"
  "call_claude sample_env REACT_DEVELOPER
     = \<lparr> content = sample_files_text, success = True, error = None \<rparr>"
  "call_claude sample_env UNIT_TEST_EXPERT
     = \<lparr> content = sample_files_text, success = True, error = None \<rparr>"
  "call_claude sample_env E2E_EXPERT
     = \<lparr> content = sample_files_text, success = True, error = None \<rparr>"
  by (simp_all add: sample_env_def offline_env_def ARCHITECT_def REACT_DEVELOPER_def
        UNIT_TEST_EXPERT_def E2E_EXPERT_def str_def)

lemma sample_json_loads:
  "json_loads sample_env (str ''{\"project_name\": \"Todo App\"}'') = Some sample_plan"
  by (simp add: sample_env_def offline_env_def)

lemma sample_planner: "planner_node sample_env after_github_init = Inr after_planner"
  by (simp add: planner_node_def planner_try_def sample_calls Let_def sample_slice
        sample_json_loads after_planner_def after_github_init_def planned_state_def
        start_state_def initial_state_def)
     (simp add: sample_plan_def dict_item_def py_str_def str_def)

lemma sample_parse:
  "parse_files (save_file sample_env (JStr (str ''Todo App''))) sample_files_text = Inr sample_files"
  by (simp add: parse_files_def py_split_def py_split1_def FILE_MARK_def SEP_def END_MARK_def
        sample_files_text_def sample_files_def save_file_def sample_env_fields py_strip_def
        py_replace_def py_isspace_def str_def)

lemma sample_generate:
  "generate_files sample_env REACT_DEVELOPER (JStr (str ''Todo App'')) = Inr (Some sample_files)"
  "generate_files sample_env UNIT_TEST_EXPERT (JStr (str ''Todo App'')) = Inr (Some sample_files)"
  "generate_files sample_env E2E_EXPERT (JStr (str ''Todo App'')) = Inr (Some sample_files)"
  by (simp_all add: generate_files_def sample_calls sample_parse Let_def)

lemma sample_plan_name:
  "development_plan st = Some sample_plan \<Longrightarrow>
     plan_project_name st = Inr (sample_plan, JStr (str ''Todo App''))"
  by (simp add: plan_project_name_def sample_plan_def dict_item_def str_def)

lemma sample_checks:
  "code_prompt_check sample_plan = None" "unit_test_prompt_check sample_plan = None"
  "e2e_prompt_check sample_plan = None"
  by (simp_all add: code_prompt_check_def unit_test_prompt_check_def e2e_prompt_check_def
        sample_plan_def dict_get_def str_def)

lemma sample_developer: "developer_node sample_env after_planner = Inr after_developer"
  by (simp add: developer_node_def sample_plan_name [OF plans(3)] sample_checks sample_generate
        after_developer_def Let_def)
     (simp add: after_planner_def after_github_init_def planned_state_def start_state_def
        initial_state_def)

lemma sample_tester: "tester_node sample_env after_developer = Inr after_tester"
  by (simp add: tester_node_def sample_plan_name [OF plans(4)] sample_checks sample_generate
        after_tester_def Let_def)

lemma sample_deploy:
  "deploy_to_vercel sample_env log name repo = (failure (str ''No Vercel token''), log)"
  by (simp add: deploy_to_vercel_def sample_env_fields)

lemma failure_error: "map_of (failure msg) (str ''error'') = Some (JStr msg)"
  by (simp add: failure_def str_def)

lemma sample_deployer: "deployer_node sample_env [] after_tester = (Inr after_deployer, [])"
  by (simp add: deployer_node_def sample_plan_name [OF plans(5)] sample_deploy dict_item_def
        failure_success failure_error py_str_opt_def py_str_def after_deployer_def)
     (simp add: after_tester_def after_developer_def after_planner_def after_github_init_def
        planned_state_def start_state_def initial_state_def str_def)

lemma sample_run: "run_workflow sample_env planned_state = (sample_trace, Finished, [])"
  unfolding run_workflow_def entry_point_def recursion_limit_Suc run_steps
  by (simp add: sample_github_init sample_planner sample_developer sample_commit_code
        sample_tester sample_commit_tests sample_deployer sample_commit_deploy sample_trace_def)

lemma start_outcome: "run_workflow env start_state = ([], Node_raised AttributeError, [])"
  unfolding run_workflow_def entry_point_def recursion_limit_Suc run_steps
  by (simp add: github_agent_node_no_plan start_state_def initial_state_def)

text \<open>
  Claim C2, as the code has it.  The graph is one chain of eight distinct nodes from the
  entry point to \<open>END\<close>; a run visits a prefix of the chain, each node once, and either
  finishes or stops at the node that raises (the step limit is never reached).  The field
  \<open>current_stage\<close> is assigned by the planner, the developer, the tester and the deployer
  only, and the four repository nodes leave it as it is: along a run it goes through its
  starting value, \<open>planning_complete\<close>, \<open>code_written\<close>, \<open>tests_written\<close> and
  \<open>deployment_complete\<close>, never back.  When all eight nodes return, the field is
  \<open>deployment_complete\<close>, the value it already has after the seventh.
\<close>

theorem stage_field_along_run:
  "run_workflow env st = (trace, out, lg) \<Longrightarrow>
     distinct node_chain
     \<and> prefix (map fst trace) node_chain
     \<and> prefix (stage_trace trace)
          [current_stage st, str ''planning_complete'', str ''code_written'',
           str ''code_written'', str ''tests_written'', str ''tests_written'',
           str ''deployment_complete'', str ''deployment_complete'']
     \<and> (out = Finished \<or> (\<exists>e. out = Node_raised e))
     \<and> (out = Finished \<longrightarrow>
          map fst trace = node_chain
          \<and> stage_trace trace =
              [current_stage st, str ''planning_complete'', str ''code_written'',
               str ''code_written'', str ''tests_written'', str ''tests_written'',
               str ''deployment_complete'', str ''deployment_complete'']
          \<and> current_stage (snd (last trace)) = str ''deployment_complete'')"
proof -
  assume r: "run_workflow env st = (trace, out, lg)"
  let ?stages = "[current_stage st, str ''planning_complete'', str ''code_written'',
           str ''code_written'', str ''tests_written'', str ''tests_written'',
           str ''deployment_complete'', str ''deployment_complete'']"
  from run_workflow_shape [OF r]
  have n: "map fst trace = take (length trace) node_chain"
    and s: "stage_trace trace = take (length trace) ?stages"
    and o: "out = Finished \<and> length trace = 8 \<or> (\<exists>e. out = Node_raised e \<and> length trace < 8)"
    by blast+
  have d: "distinct node_chain"
    by (simp add: node_chain_def str_def)
  have p1: "prefix (map fst trace) node_chain"
    unfolding n by (rule take_is_prefix)
  have p2: "prefix (stage_trace trace) ?stages"
    unfolding s by (rule take_is_prefix)
  have f: "out = Finished \<longrightarrow>
          map fst trace = node_chain \<and> stage_trace trace = ?stages
          \<and> current_stage (snd (last trace)) = str ''deployment_complete''"
  proof
    assume "out = Finished"
    with o have l: "length trace = 8" by auto
    from n l have a: "map fst trace = node_chain" by (simp add: node_chain_def)
    from s l have b: "stage_trace trace = ?stages" by simp
    from l have "trace \<noteq> []" by auto
    then have "current_stage (snd (last trace)) = last (stage_trace trace)"
      by (simp add: stage_trace_def last_map)
    with b have c: "current_stage (snd (last trace)) = str ''deployment_complete''" by simp
    from a b c show "map fst trace = node_chain \<and> stage_trace trace = ?stages
          \<and> current_stage (snd (last trace)) = str ''deployment_complete''"
      by blast
  qed
  from o have "out = Finished \<or> (\<exists>e. out = Node_raised e)" by blast
  with d p1 p2 f show ?thesis by blast
qed

lemma sample_stage_trace:
  "stage_trace sample_trace =
     [str ''initial'', str ''planning_complete'', str ''code_written'', str ''code_written'',
      str ''tests_written'', str ''tests_written'', str ''deployment_complete'',
      str ''deployment_complete'']"
  by (simp add: stage_trace_def sample_trace_def after_github_init_def after_planner_def
        after_developer_def after_tester_def after_deployer_def planned_state_def
        start_state_def initial_state_def)

lemma planned_stage: "current_stage planned_state = str ''initial''"
  by (simp add: planned_state_def start_state_def initial_state_def)

theorem stage_field_along_run_witness:
  "run_workflow sample_env planned_state = (sample_trace, Finished, [])
   \<and> map fst sample_trace = node_chain
   \<and> stage_trace sample_trace =
       [str ''initial'', str ''planning_complete'', str ''code_written'', str ''code_written'',
        str ''tests_written'', str ''tests_written'', str ''deployment_complete'',
        str ''deployment_complete'']
   \<and> current_stage (snd (last sample_trace)) = str ''deployment_complete''"
  using stage_field_along_run [OF sample_run] sample_run
  by (simp add: planned_stage)

text \<open>
  The claim as stated asks for nine stage values, one per position, the last reached after
  the eighth completion.  In the run of \<open>sample_env\<close> from \<open>planned_state\<close> all eight
  nodes return, and the field has the same value before and after each repository node.
\<close>

theorem stage_field_counterexample:
  "outcome_of_run sample_env planned_state = Finished
   \<and> stages_of_run sample_env planned_state =
       [str ''initial'', str ''initial'', str ''planning_complete'', str ''code_written'',
        str ''code_written'', str ''tests_written'', str ''tests_written'',
        str ''deployment_complete'', str ''deployment_complete'']
   \<and> \<not> distinct (stages_of_run sample_env planned_state)"
  by (simp add: outcome_of_run_def stages_of_run_def sample_run sample_stage_trace planned_stage)

text \<open>
  Claim C7.  \<open>run_development\<close> starts the workflow with \<open>development_plan\<close> set to
  \<open>None\<close>, and the first node is the repository stage.  There the project name is read
  with \<open>state.get('development_plan', {}).get(...)\<close>: the key is present, so the value is
  \<open>None\<close> and the second \<open>get\<close> raises.  With or without a token, the stage raises before
  it reaches the repository creation, records no sentinel, and the run stops at its first
  node.
\<close>

theorem ensure_repository_raises_without_plan:
  "github_agent_node env log (initial_state reqs history) = (Inl AttributeError, log)
   \<and> run_workflow env (initial_state reqs history) = ([], Node_raised AttributeError, [])"
proof
  show "github_agent_node env log (initial_state reqs history) = (Inl AttributeError, log)"
    by (simp add: github_agent_node_no_plan initial_state_def)
  show "run_workflow env (initial_state reqs history) = ([], Node_raised AttributeError, [])"
    unfolding run_workflow_def entry_point_def recursion_limit_Suc run_steps
    by (simp add: github_agent_node_no_plan initial_state_def)
qed

lemma generate_files_failed:
  "\<not> success (call_claude env system_prompt) \<Longrightarrow> generate_files env system_prompt name = Inr None"
  by (simp add: generate_files_def Let_def)

text \<open>
  Claim C1, as the code has it.  A generating stage whose generation fails still
  completes: the planner, the developer (both of its generations failing) and the tester
  set \<open>current_stage\<close> to their own completion value, append nothing to \<open>errors\<close> and
  leave the plan and the file mappings as they were; the developer also counts the
  iteration.  The developer and the tester need a plan that has \<open>project_name\<close> and the
  fields their prompts read in the expected shape.
\<close>

theorem generation_failure_still_advances:
  "(\<not> success (call_claude env ARCHITECT) \<longrightarrow>
      planner_node env st = Inr (st\<lparr>current_stage := str ''planning_complete''\<rparr>))
   \<and> (\<not> success (call_claude env REACT_DEVELOPER) \<and> \<not> success (call_claude env UNIT_TEST_EXPERT)
        \<and> development_plan st = Some plan \<and> json_item plan (str ''project_name'') = Inr name
        \<and> code_prompt_check plan = None \<and> unit_test_prompt_check plan = None \<longrightarrow>
      developer_node env st =
        Inr (st\<lparr>current_stage := str ''code_written'',
                iteration_count := iteration_count st + 1\<rparr>))
   \<and> (\<not> success (call_claude env E2E_EXPERT)
        \<and> development_plan st = Some plan \<and> json_item plan (str ''project_name'') = Inr name
        \<and> e2e_prompt_check plan = None \<longrightarrow>
      tester_node env st = Inr (st\<lparr>current_stage := str ''tests_written''\<rparr>))"
  by (simp add: planner_node_def developer_node_def tester_node_def plan_project_name_def
        generate_files_failed Let_def)

lemma offline_calls: "success (call_claude offline_env system_prompt) = False"
  by (simp add: offline_env_def)

lemma sample_plan_item: "json_item sample_plan (str ''project_name'') = Inr (JStr (str ''Todo App''))"
  by (simp add: sample_plan_def dict_item_def str_def)

theorem generation_failure_still_advances_witness:
  "\<not> success (call_claude offline_env ARCHITECT)
   \<and> \<not> success (call_claude offline_env REACT_DEVELOPER)
   \<and> \<not> success (call_claude offline_env UNIT_TEST_EXPERT)
   \<and> \<not> success (call_claude offline_env E2E_EXPERT)
   \<and> development_plan planned_state = Some sample_plan
   \<and> json_item sample_plan (str ''project_name'') = Inr (JStr (str ''Todo App''))
   \<and> code_prompt_check sample_plan = None \<and> unit_test_prompt_check sample_plan = None
   \<and> e2e_prompt_check sample_plan = None
   \<and> planner_node offline_env planned_state
       = Inr (planned_state\<lparr>current_stage := str ''planning_complete''\<rparr>)
   \<and> developer_node offline_env planned_state
       = Inr (planned_state\<lparr>current_stage := str ''code_written'',
                            iteration_count := iteration_count planned_state + 1\<rparr>)
   \<and> tester_node offline_env planned_state
       = Inr (planned_state\<lparr>current_stage := str ''tests_written''\<rparr>)"
  using generation_failure_still_advances
          [of offline_env planned_state sample_plan "JStr (str ''Todo App'')"]
        offline_calls plans(1) sample_plan_item sample_checks
  by simp

text \<open>
  The claim as stated fails at the planner: with the generation failing from the starting
  state, the stage moves from \<open>initial\<close> to \<open>planning_complete\<close> and \<open>errors\<close> gets no
  entry.
\<close>

theorem generation_failure_counterexample:
  "\<not> success (call_claude offline_env ARCHITECT)
   \<and> planner_node offline_env start_state
       = Inr (start_state\<lparr>current_stage := str ''planning_complete''\<rparr>)
   \<and> current_stage (start_state\<lparr>current_stage := str ''planning_complete''\<rparr>)
       \<noteq> current_stage start_state
   \<and> length (errors (start_state\<lparr>current_stage := str ''planning_complete''\<rparr>))
       \<noteq> length (errors start_state) + 1"
  by (simp add: planner_node_def offline_calls Let_def start_state_def initial_state_def str_def)

section \<open>The round trip through the delimiter format\<close>

text \<open>Occurrences of a separator in a concatenation.\<close>

lemma sublist_barrier:
  assumes "c \<notin> set sep"
  shows "sublist sep (ys @ c # zs) \<longleftrightarrow> sublist sep ys \<or> sublist sep zs"
proof
  assume "sublist sep (ys @ c # zs)"
  then consider "sublist sep ys" | "sublist sep (c # zs)"
    | xs1 xs2 where "sep = xs1 @ xs2" "suffix xs1 ys" "prefix xs2 (c # zs)"
    by (auto simp: sublist_append)
  then show "sublist sep ys \<or> sublist sep zs"
  proof cases
    case 1
    then show ?thesis by simp
  next
    case 2
    then have "prefix sep (c # zs) \<or> sublist sep zs" by (simp add: sublist_Cons_right)
    with assms show ?thesis by (cases sep) (auto)
  next
    case 3
    show ?thesis
    proof (cases xs2)
      case Nil
      with 3 have "suffix sep ys" by simp
      then show ?thesis by auto
    next
      case (Cons x xs)
      with 3 have "x = c" by simp
      with Cons 3 assms show ?thesis by simp
    qed
  qed
next
  assume "sublist sep ys \<or> sublist sep zs"
  then show "sublist sep (ys @ c # zs)"
    by (auto simp: sublist_append sublist_Cons_right)
qed

lemma sublist_not_in_tail:
  assumes "sep \<noteq> []" "last sep \<notin> set zs" "sublist sep (ys @ zs)"
  shows "sublist sep ys"
proof -
  from assms(3) consider "sublist sep ys" | "sublist sep zs"
    | xs1 xs2 where "sep = xs1 @ xs2" "suffix xs1 ys" "prefix xs2 zs"
    by (auto simp: sublist_append)
  then show ?thesis
  proof cases
    case 1
    then show ?thesis .
  next
    case 2
    then have "set sep \<subseteq> set zs" by (rule set_mono_sublist)
    with assms(1,2) show ?thesis using last_in_set by blast
  next
    case 3
    show ?thesis
    proof (cases "xs2 = []")
      case True
      with 3 show ?thesis by auto
    next
      case False
      with 3(1) have "last sep = last xs2" by simp
      moreover from False have "last xs2 \<in> set xs2" by simp
      moreover from 3(3) have "set xs2 \<subseteq> set zs" by (rule set_mono_prefix)
      ultimately show ?thesis using assms(2) by auto
    qed
  qed
qed

lemma sublist_not_in_head:
  assumes "sep \<noteq> []" "hd sep \<notin> set ys" "sublist sep (ys @ zs)"
  shows "sublist sep zs"
proof -
  from assms(3) consider "sublist sep ys" | "sublist sep zs"
    | xs1 xs2 where "sep = xs1 @ xs2" "suffix xs1 ys" "prefix xs2 zs"
    by (auto simp: sublist_append)
  then show ?thesis
  proof cases
    case 1
    then have "set sep \<subseteq> set ys" by (rule set_mono_sublist)
    with assms(1,2) show ?thesis using hd_in_set by blast
  next
    case 2
    then show ?thesis .
  next
    case 3
    show ?thesis
    proof (cases "xs1 = []")
      case True
      with 3 show ?thesis by auto
    next
      case False
      with 3(1) have "hd sep = hd xs1" by simp
      moreover from False have "hd xs1 \<in> set xs1" by simp
      moreover from 3(2) have "set xs1 \<subseteq> set ys" by (rule set_mono_suffix)
      ultimately show ?thesis using assms(2) by auto
    qed
  qed
qed

text \<open>No occurrence starts in the first part of a text.\<close>

lemma prefix_append_take:
  assumes "prefix sep (b @ rest)" and "length sep \<le> length b + k"
  shows "prefix sep (b @ take k rest)"
proof -
  from assms(1) obtain zs where z: "b @ rest = sep @ zs"
    by (auto simp: prefix_def)
  have e: "take (length sep) (b @ rest) = sep"
    unfolding z by simp
  from assms(2) have "take (length sep) (b @ take k rest) = take (length sep) (b @ rest)"
    by (simp add: min_def)
  with e have "take (length sep) (b @ take k rest) = sep" by simp
  then show ?thesis by (metis take_is_prefix)
qed


lemma no_early_occurrence:
  assumes "\<not> sublist sep (a @ take (length sep - 1) rest)" and "i < length a"
  shows "\<not> prefix sep (drop i (a @ rest))"
proof
  assume p: "prefix sep (drop i (a @ rest))"
  from assms(2) have d: "drop i (a @ rest) = drop i a @ rest" by simp
  from assms(2) have "length sep \<le> length (drop i a) + (length sep - 1)" by simp
  with p d have "prefix sep (drop i a @ take (length sep - 1) rest)"
    by (simp add: prefix_append_take)
  then have "sublist sep (drop i a @ take (length sep - 1) rest)"
    by (rule prefix_imp_sublist)
  then have "sublist sep (take i a @ (drop i a @ take (length sep - 1) rest))"
    by (simp add: sublist_append)
  then have "sublist sep ((take i a @ drop i a) @ take (length sep - 1) rest)"
    by (simp only: append_assoc)
  with assms(1) show False by (simp only: append_take_drop_id)
qed

lemma split_aux_skip:
  "(\<And>i. i < length a \<Longrightarrow> \<not> prefix sep (drop i (a @ rest))) \<Longrightarrow>
     split_aux sep acc (a @ rest) = split_aux sep (acc @ a) rest"
proof (induction a arbitrary: acc)
  case Nil
  show ?case by simp
next
  case (Cons x a)
  from Cons.prems [of 0] have n: "\<not> prefix sep (x # a @ rest)" by simp
  have "\<And>i. i < length a \<Longrightarrow> \<not> prefix sep (drop i (a @ rest))"
    using Cons.prems [of "Suc i" for i] by simp
  from Cons.IH [OF this, of "acc @ [x]"] n show ?case by simp
qed

lemma split_aux_sep:
  "sep \<noteq> [] \<Longrightarrow> split_aux sep acc (sep @ rest) = acc # split_aux sep [] rest"
  by (cases sep) simp_all

lemma split1_aux_skip:
  "sep \<noteq> [] \<Longrightarrow> (\<And>i. i < length a \<Longrightarrow> \<not> prefix sep (drop i (a @ sep @ rest))) \<Longrightarrow>
     split1_aux sep acc (a @ sep @ rest) = Some (acc @ a, rest)"
proof (induction a arbitrary: acc)
  case Nil
  then show ?case by (cases sep) simp_all
next
  case (Cons x a)
  from Cons.prems(2) [of 0] have n: "\<not> prefix sep (x # a @ sep @ rest)" by simp
  have "\<And>i. i < length a \<Longrightarrow> \<not> prefix sep (drop i (a @ sep @ rest))"
    using Cons.prems(2) [of "Suc i" for i] by simp
  from Cons.IH [OF Cons.prems(1) this, of "acc @ [x]"] n show ?case by simp
qed

lemma replace_aux_skip:
  "(\<And>i. i < length a \<Longrightarrow> \<not> prefix old (drop i (a @ rest))) \<Longrightarrow>
     replace_aux old new (a @ rest) = a @ replace_aux old new rest"
proof (induction a)
  case Nil
  show ?case by simp
next
  case (Cons x a)
  from Cons.prems [of 0] have n: "\<not> prefix old (x # a @ rest)" by simp
  have "\<And>i. i < length a \<Longrightarrow> \<not> prefix old (drop i (a @ rest))"
    using Cons.prems [of "Suc i" for i] by simp
  from Cons.IH [OF this] n show ?case by simp
qed

lemma replace_aux_old:
  "old \<noteq> [] \<Longrightarrow> replace_aux old new (old @ rest) = new @ replace_aux old new rest"
  by (cases old) simp_all

text \<open>White space around a text does not change what \<open>strip\<close> returns.\<close>

lemma py_strip_leading:
  "\<forall>c \<in> set ws. py_isspace c \<Longrightarrow> py_strip (ws @ s) = py_strip s"
  by (simp add: py_strip_def)

lemma py_strip_trailing:
  assumes "\<forall>c \<in> set ws. py_isspace c"
  shows "py_strip (s @ ws) = py_strip s"
proof (cases "\<forall>c \<in> set s. py_isspace c")
  case True
  with assms have a: "dropWhile py_isspace (s @ ws) = []" and b: "dropWhile py_isspace s = []"
    by simp_all
  show ?thesis unfolding py_strip_def a b by simp
next
  case False
  then have "dropWhile py_isspace (s @ ws) = dropWhile py_isspace s @ ws"
    by (auto simp: dropWhile_append)
  with assms show ?thesis by (simp add: py_strip_def dropWhile_append)
qed


text \<open>The serialised form, segment by segment.\<close>

lemma marker_facts:
  "10 \<notin> set FILE_MARK" "10 \<notin> set END_MARK" "last FILE_MARK \<notin> set SEP"
  "hd FILE_MARK \<notin> set (str '' '')" "hd SEP \<notin> set (str '' '')"
  "length FILE_MARK = 8" "length END_MARK = 14" "length SEP = 3"
  "sublist SEP FILE_MARK" "\<not> sublist FILE_MARK END_MARK"
  by (simp_all add: FILE_MARK_def END_MARK_def SEP_def str_def flip: py_in_sublist)

lemma serialize_file_segment:
  "serialize_file f =
     FILE_MARK @ (str '' '' @ fst f @ SEP @ [10] @ snd f @ [10] @ END_MARK @ [10])"
  by (simp add: serialize_file_def)

lemma path_no_SEP:
  assumes "well_formed_file f"
  shows "\<not> sublist SEP (fst f)"
  using assms by (simp add: well_formed_file_def py_in_sublist)

text \<open>The separator written after the path is the first one of the segment.\<close>

lemma path_then_equals:
  assumes "well_formed_file f"
  shows "\<not> sublist SEP (fst f @ str ''=='')"
proof (cases "fst f = []")
  case True
  then show ?thesis
    by (simp add: SEP_def str_def flip: py_in_sublist)
next
  case False
  with assms have l: "last (fst f) \<noteq> 61"
    by (simp add: well_formed_file_def)
  then have n: "last (fst f) \<notin> set SEP"
    by (simp add: SEP_def str_def)
  have s: "\<not> sublist SEP (str ''=='')"
    by (simp add: SEP_def str_def flip: py_in_sublist)
  from False have "fst f @ str ''=='' = butlast (fst f) @ last (fst f) # str ''==''"
    by simp
  then have "sublist SEP (fst f @ str ''=='')
               \<longleftrightarrow> sublist SEP (butlast (fst f)) \<or> sublist SEP (str ''=='')"
    by (simp only: sublist_barrier [OF n])
  moreover have "sublist SEP (butlast (fst f)) \<Longrightarrow> sublist SEP (fst f)"
    using sublist_order.order.trans [OF _ prefix_imp_sublist [OF prefixeq_butlast]] by blast
  ultimately show ?thesis
    using s path_no_SEP [OF assms] by blast
qed

lemma header_no_SEP:
  assumes "well_formed_file f"
  shows "\<not> sublist SEP (str '' '' @ fst f @ str ''=='')"
proof
  assume "sublist SEP (str '' '' @ fst f @ str ''=='')"
  from sublist_not_in_head [OF SEP_ne marker_facts(5) this] path_then_equals [OF assms]
  show False by simp
qed

lemma header_no_FILE_MARK:
  assumes "well_formed_file f"
  shows "\<not> sublist FILE_MARK (str '' '' @ fst f @ SEP)"
proof
  assume "sublist FILE_MARK (str '' '' @ fst f @ SEP)"
  then have "sublist FILE_MARK ((str '' '' @ fst f) @ SEP)" by simp
  from sublist_not_in_tail [OF FILE_MARK_ne marker_facts(3) this]
  have "sublist FILE_MARK (str '' '' @ fst f)" .
  from sublist_not_in_head [OF FILE_MARK_ne marker_facts(4) this]
  have "sublist FILE_MARK (fst f)" .
  with marker_facts(9) have "sublist SEP (fst f)"
    by (rule sublist_order.order.trans)
  with path_no_SEP [OF assms] show False by simp
qed

lemma short_not_sublist: "length ys < length xs \<Longrightarrow> \<not> sublist xs ys"
  using sublist_length_le [of xs ys] by auto

lemma segment_no_FILE_MARK:
  assumes "well_formed_file f"
  shows "\<not> sublist FILE_MARK
           ((str '' '' @ fst f @ SEP @ [10] @ snd f @ [10] @ END_MARK @ [10])
              @ take (length FILE_MARK - 1) rest)"
proof -
  have t: "\<not> sublist FILE_MARK (take (length FILE_MARK - 1) rest)"
    by (rule short_not_sublist) (simp add: marker_facts)
  have e: "(str '' '' @ fst f @ SEP @ [10] @ snd f @ [10] @ END_MARK @ [10])
              @ take (length FILE_MARK - 1) rest
           = (str '' '' @ fst f @ SEP) @ 10 # (snd f @ 10 # (END_MARK @ 10
               # take (length FILE_MARK - 1) rest))"
    by simp
  from assms have c: "\<not> sublist FILE_MARK (snd f)"
    by (simp add: well_formed_file_def py_in_sublist)
  show ?thesis
    unfolding e sublist_barrier [OF marker_facts(1)]
    using header_no_FILE_MARK [OF assms] c t marker_facts(10)
    by blast
qed

lemma split_serialized:
  "\<forall>f \<in> set files. well_formed_file f \<Longrightarrow>
     split_aux FILE_MARK acc (serialize_files files) =
       acc # map (\<lambda>f. str '' '' @ fst f @ SEP @ [10] @ snd f @ [10] @ END_MARK @ [10]) files"
proof (induction files arbitrary: acc)
  case Nil
  show ?case by (simp add: serialize_files_def)
next
  case (Cons f files)
  let ?seg = "str '' '' @ fst f @ SEP @ [10] @ snd f @ [10] @ END_MARK @ [10]"
  from Cons.prems have w: "well_formed_file f" and ws: "\<forall>f \<in> set files. well_formed_file f"
    by simp_all
  have s: "serialize_files (f # files) = FILE_MARK @ (?seg @ serialize_files files)"
    by (simp add: serialize_files_def serialize_file_segment)
  have "split_aux FILE_MARK acc (serialize_files (f # files))
          = acc # split_aux FILE_MARK [] (?seg @ serialize_files files)"
    unfolding s by (rule split_aux_sep [OF FILE_MARK_ne])
  also have "split_aux FILE_MARK [] (?seg @ serialize_files files)
          = split_aux FILE_MARK ([] @ ?seg) (serialize_files files)"
    by (rule split_aux_skip) (rule no_early_occurrence [OF segment_no_FILE_MARK [OF w]])
  also have "\<dots> = ?seg # map (\<lambda>f. str '' '' @ fst f @ SEP @ [10] @ snd f @ [10] @ END_MARK @ [10]) files"
    using Cons.IH [OF ws, of ?seg] by simp
  finally show ?case by simp
qed

lemma split1_segment:
  assumes "well_formed_file f"
  shows "py_split1 SEP (str '' '' @ fst f @ SEP @ [10] @ snd f @ [10] @ END_MARK @ [10])
           = Inr [str '' '' @ fst f, [10] @ snd f @ [10] @ END_MARK @ [10]]"
proof -
  let ?rest = "[10] @ snd f @ [10] @ END_MARK @ [10]"
  have t: "take (length SEP - 1) (SEP @ ?rest) = str ''==''"
    by (simp add: SEP_def str_def)
  have n: "\<not> sublist SEP ((str '' '' @ fst f) @ take (length SEP - 1) (SEP @ ?rest))"
    unfolding t using header_no_SEP [OF assms] by simp
  have "split1_aux SEP [] ((str '' '' @ fst f) @ SEP @ ?rest) = Some ([] @ (str '' '' @ fst f), ?rest)"
    by (rule split1_aux_skip [OF SEP_ne]) (rule no_early_occurrence [OF n])
  then show ?thesis
    by (simp add: py_split1_def SEP_ne)
qed

lemma body_without_end_mark:
  assumes "well_formed_file f"
  shows "py_replace END_MARK [] ([10] @ snd f @ [10] @ END_MARK @ [10]) = [10] @ snd f @ [10, 10]"
proof -
  have t: "\<not> sublist END_MARK (take (length END_MARK - 1) (END_MARK @ [10]))"
    by (rule short_not_sublist) (simp add: marker_facts)
  from assms have c: "\<not> sublist END_MARK (snd f)"
    by (simp add: well_formed_file_def py_in_sublist)
  have e: "([10] @ snd f @ [10]) @ take (length END_MARK - 1) (END_MARK @ [10])
             = [] @ 10 # (snd f @ 10 # take (length END_MARK - 1) (END_MARK @ [10]))"
    by simp
  have z: "\<not> sublist END_MARK []"
    by (simp add: END_MARK_ne)
  have n: "\<not> sublist END_MARK
             (([10] @ snd f @ [10]) @ take (length END_MARK - 1) (END_MARK @ [10]))"
    unfolding e sublist_barrier [OF marker_facts(2)] using c t z
    by blast
  have "replace_aux END_MARK [] (([10] @ snd f @ [10]) @ (END_MARK @ [10]))
          = ([10] @ snd f @ [10]) @ replace_aux END_MARK [] (END_MARK @ [10])"
    by (rule replace_aux_skip) (rule no_early_occurrence [OF n])
  also have "replace_aux END_MARK [] (END_MARK @ [10]) = [] @ replace_aux END_MARK [] [10]"
    by (rule replace_aux_old [OF END_MARK_ne])
  also have "replace_aux END_MARK [] [10] = [10]"
    by (simp add: END_MARK_def str_def)
  finally show ?thesis
    by (simp add: py_replace_def END_MARK_ne)
qed

lemma pair_of_segment:
  assumes "well_formed_file f"
  shows "pair_of (str '' '' @ fst f) ([10] @ snd f @ [10] @ END_MARK @ [10]) = f"
proof -
  have sp: "\<forall>c \<in> set (str '' ''). py_isspace c" "\<forall>c \<in> set [10]. py_isspace c"
    "\<forall>c \<in> set [10, 10]. py_isspace c"
    by (simp_all add: str_def py_isspace_def)
  from assms have p: "py_strip (fst f) = fst f" and c: "py_strip (snd f) = snd f"
    by (simp_all add: well_formed_file_def)
  have a: "py_strip (str '' '' @ fst f) = fst f"
    using py_strip_leading [OF sp(1)] p by simp
  have "py_strip ([10] @ (snd f @ [10, 10])) = py_strip (snd f @ [10, 10])"
    by (rule py_strip_leading [OF sp(2)])
  also have "\<dots> = py_strip (snd f)"
    by (rule py_strip_trailing [OF sp(3)])
  finally have b: "py_strip ([10] @ snd f @ [10, 10]) = snd f"
    using c by simp
  show ?thesis
    unfolding pair_of_def body_without_end_mark [OF assms] a b by simp
qed


lemma py_in_segment:
  "py_in SEP (str '' '' @ fst f @ SEP @ [10] @ snd f @ [10] @ END_MARK @ [10])"
proof -
  have "sublist SEP ((str '' '' @ fst f) @ SEP @ ([10] @ snd f @ [10] @ END_MARK @ [10]))"
    by (rule sublist_appendI)
  then show ?thesis by (simp add: py_in_sublist)
qed

lemma parse_parts_serialized:
  "\<forall>f \<in> set files. well_formed_file f \<Longrightarrow> \<forall>f \<in> set files. save (fst f) (snd f) = None \<Longrightarrow>
     parse_parts save
       (map (\<lambda>f. str '' '' @ fst f @ SEP @ [10] @ snd f @ [10] @ END_MARK @ [10]) files) d
     = Inr (fold (\<lambda>f. AList.update (fst f) (snd f)) files d)"
proof (induction files arbitrary: d)
  case Nil
  show ?case by simp
next
  case (Cons f files)
  from Cons.prems have w: "well_formed_file f" and ws: "\<forall>f \<in> set files. well_formed_file f"
    and a: "save (fst f) (snd f) = None" and as: "\<forall>f \<in> set files. save (fst f) (snd f) = None"
    by simp_all
  from pair_of_segment [OF w]
  have p: "py_strip (str '' '' @ fst f) = fst f"
    "py_strip (py_replace END_MARK [] ([10] @ snd f @ [10] @ END_MARK @ [10])) = snd f"
    by (simp_all add: pair_of_def prod_eq_iff)
  show ?case
    using py_in_segment [of f] split1_segment [OF w] p a Cons.IH [OF ws as]
    by (simp add: Let_def)
qed

lemma update_new_key: "k \<notin> fst ` set d \<Longrightarrow> AList.update k v d = d @ [(k, v)]"
  by (induction d) auto

lemma fold_update_distinct:
  "distinct (map fst (d @ files)) \<Longrightarrow>
     fold (\<lambda>f. AList.update (fst f) (snd f)) files d = d @ files"
proof (induction files arbitrary: d)
  case Nil
  show ?case by simp
next
  case (Cons f files)
  from Cons.prems have n: "fst f \<notin> fst ` set d" by auto
  from Cons.prems have "distinct (map fst ((d @ [f]) @ files))" by simp
  from Cons.IH [OF this] n show ?case
    by (simp add: update_new_key)
qed

text \<open>
  Claim C4, as the code has it.  The loop of a generating stage is \<open>parse_files\<close> with the
  stage's \<open>save_file\<close> as the store.  For a mapping with distinct paths in which every
  file is well formed (path and content without white space at their ends, no \<open>===\<close> in
  the path and no \<open>=\<close> at its end, neither marker in the content) and is accepted by the
  store, parsing the serialised mapping gives the mapping back, in the same order.
\<close>

theorem serialize_parse_round_trip:
  assumes "distinct (map fst files)" and "\<forall>f \<in> set files. well_formed_file f"
    and "\<forall>f \<in> set files. save (fst f) (snd f) = None"
  shows "parse_files save (serialize_files files) = Inr files"
proof -
  have "parse_files save (serialize_files files)
          = parse_parts save (tl (split_aux FILE_MARK [] (serialize_files files))) []"
    by (simp add: parse_files_def py_split_def FILE_MARK_ne)
  also have "\<dots> = Inr (fold (\<lambda>f. AList.update (fst f) (snd f)) files [])"
    unfolding split_serialized [OF assms(2)] list.sel
    by (rule parse_parts_serialized [OF assms(2) assms(3)])
  also have "fold (\<lambda>f. AList.update (fst f) (snd f)) files [] = [] @ files"
    by (rule fold_update_distinct) (simp add: assms(1))
  finally show ?thesis by simp
qed

lemmas wf_eval = well_formed_file_def py_strip_def py_isspace_def SEP_def FILE_MARK_def
  END_MARK_def str_def

theorem serialize_parse_round_trip_witness:
  "distinct (map fst [(str ''src/App.jsx'', str ''const a = 1;'' @ [10] @ str ''export default a''),
                      (str ''README.md'', str ''# Todo'')])
   \<and> well_formed_file (str ''src/App.jsx'', str ''const a = 1;'' @ [10] @ str ''export default a'')
   \<and> well_formed_file (str ''README.md'', str ''# Todo'')
   \<and> save_file dir_env (JStr (str ''Todo App'')) (str ''src/App.jsx'')
        (str ''const a = 1;'' @ [10] @ str ''export default a'') = None
   \<and> save_file dir_env (JStr (str ''Todo App'')) (str ''README.md'') (str ''# Todo'') = None
   \<and> parse_files (save_file dir_env (JStr (str ''Todo App'')))
        (serialize_files [(str ''src/App.jsx'', str ''const a = 1;'' @ [10] @ str ''export default a''),
                          (str ''README.md'', str ''# Todo'')])
       = Inr [(str ''src/App.jsx'', str ''const a = 1;'' @ [10] @ str ''export default a''),
              (str ''README.md'', str ''# Todo'')]"
proof -
  let ?S = "save_file dir_env (JStr (str ''Todo App''))"
  let ?f1 = "(str ''src/App.jsx'', str ''const a = 1;'' @ [10] @ str ''export default a'')"
  let ?f2 = "(str ''README.md'', str ''# Todo'')"
  have d: "distinct (map fst [?f1, ?f2])"
    by (simp add: str_def)
  have w1: "well_formed_file ?f1"
    by (simp add: wf_eval)
  have w2: "well_formed_file ?f2"
    by (simp add: wf_eval)
  have a1: "?S (fst ?f1) (snd ?f1) = None" and a2: "?S (fst ?f2) (snd ?f2) = None"
    by (simp_all add: dir_save str_def)
  from w1 w2 have w: "\<forall>f \<in> set [?f1, ?f2]. well_formed_file f" by simp
  from a1 a2 have a: "\<forall>f \<in> set [?f1, ?f2]. ?S (fst f) (snd f) = None" by simp
  from serialize_parse_round_trip [OF d w a] d w1 w2 a1 a2 show ?thesis by simp
qed

text \<open>
  The claim as stated, for every mapping, fails on a content that ends with a newline: the
  store accepts the file and the parser trims its content.
\<close>

theorem round_trip_counterexample:
  "parse_files (save_file dir_env (JStr (str ''Todo App'')))
     (serialize_files [(str ''a.js'', str ''x = 1'' @ [10])])
     = Inr [(str ''a.js'', str ''x = 1'')]
   \<and> parse_files (save_file dir_env (JStr (str ''Todo App'')))
     (serialize_files [(str ''a.js'', str ''x = 1'' @ [10])])
     \<noteq> Inr [(str ''a.js'', str ''x = 1'' @ [10])]"
  by (simp add: parse_files_def py_split_def py_split1_def FILE_MARK_def
        SEP_def END_MARK_def str_def py_strip_def py_replace_def py_isspace_def
        serialize_files_def serialize_file_def dir_save)

end
